theory Spec2Isabelle
  imports Complex_Main "HOL-Library.Sublist"
begin

section \<open>JavaScript values\<close>

text \<open>
  The program is JavaScript. Its numbers are modelled as exact rationals together with
  \<open>NaN\<close>: the rounding of IEEE doubles, the infinities and the negative zero are outside
  the model. Arithmetic and comparison follow the language: an operation on \<open>NaN\<close> is
  \<open>NaN\<close>, a comparison with \<open>NaN\<close> is false. Strings are byte strings; a character of the
  source beyond ASCII appears as its UTF-8 bytes. The string methods are modelled on
  ASCII: \<open>toUpperCase\<close> and \<open>toLowerCase\<close> map the 26 letters and leave every other byte
  as it is.
\<close>

datatype number = NaN | Num rat

fun nadd :: "number \<Rightarrow> number \<Rightarrow> number" where
  "nadd (Num a) (Num b) = Num (a + b)"
| "nadd _ _ = NaN"

fun nsub :: "number \<Rightarrow> number \<Rightarrow> number" where
  "nsub (Num a) (Num b) = Num (a - b)"
| "nsub _ _ = NaN"

fun nmul :: "number \<Rightarrow> number \<Rightarrow> number" where
  "nmul (Num a) (Num b) = Num (a * b)"
| "nmul _ _ = NaN"

fun nge :: "number \<Rightarrow> number \<Rightarrow> bool" where
  "nge (Num a) (Num b) = (b \<le> a)"
| "nge _ _ = False"

fun ngt :: "number \<Rightarrow> number \<Rightarrow> bool" where
  "ngt (Num a) (Num b) = (b < a)"
| "ngt _ _ = False"

fun nle :: "number \<Rightarrow> number \<Rightarrow> bool" where
  "nle (Num a) (Num b) = (a \<le> b)"
| "nle _ _ = False"

fun ndiv :: "number \<Rightarrow> number \<Rightarrow> number" where
  "ndiv (Num a) (Num b) = (if b = 0 then NaN else Num (a / b))"
| "ndiv _ _ = NaN"

text \<open>
  The program only divides by non-zero constants, so the quotient by zero (an infinity in
  the language) is never reached.

  \<open>Math.round\<close> is the nearest integer, a tie going up; \<open>Math.ceil\<close> and \<open>Math.max\<close>
  are used on numbers that are not \<open>NaN\<close>.
\<close>

definition Math_round :: "rat \<Rightarrow> rat" where
  "Math_round x = of_int \<lfloor>x + 1 / 2\<rfloor>"

fun nround :: "number \<Rightarrow> number" where
  "nround (Num a) = Num (Math_round a)"
| "nround NaN = NaN"

definition Math_ceil :: "rat \<Rightarrow> rat" where
  "Math_ceil x = of_int \<lceil>x\<rceil>"

text \<open>
  A value held by a field of an application: a JSON scalar or a database column, or
  nothing at all (\<open>JUndefined\<close>, also what reading an absent property gives). An object
  is a function from property names to such values.
\<close>

datatype jsval = JUndefined | JNull | JBool bool | JNumber number | JString string

type_synonym object = "string \<Rightarrow> jsval"

fun truthy :: "jsval \<Rightarrow> bool" where
  "truthy JUndefined = False"
| "truthy JNull = False"
| "truthy (JBool b) = b"
| "truthy (JNumber NaN) = False"
| "truthy (JNumber (Num x)) = (x \<noteq> 0)"
| "truthy (JString s) = (s \<noteq> [])"

text \<open>The operator \<open>||\<close> between a field and a default.\<close>

definition or_else :: "jsval \<Rightarrow> jsval \<Rightarrow> jsval" where
  "or_else v d = (if truthy v then v else d)"

text \<open>A value on which a string method can be called after a truthiness test or a default.\<close>

fun string_or_falsy :: "jsval \<Rightarrow> bool" where
  "string_or_falsy (JString s) = True"
| "string_or_falsy v = (\<not> truthy v)"

text \<open>An object literal: the listed properties, \<open>undefined\<close> for every other name.\<close>

definition object_of :: "(string \<times> jsval) list \<Rightarrow> object" where
  "object_of kvs = (\<lambda>k. case map_of kvs k of Some v \<Rightarrow> v | None \<Rightarrow> JUndefined)"

text \<open>
  The errors the program can throw in the modelled functions: calling a string method on
  a value that is not a string.
\<close>

datatype js_error = TypeError

text \<open>
  What the runtime prints for a number and what it reads from a text are not computed
  here. These conversions are parameters of the model, so every theorem holds whatever
  the runtime produces: the text of a number (\<open>String(x)\<close>, a template literal), the text
  with two decimals (\<open>x.toFixed(2)\<close>), the number at the start of a string
  (\<open>parseFloat\<close>), the time value of a date text (\<open>NaN\<close> when it is invalid), and the
  value that \<open>JSON.parse\<close> reads from a text (nothing when it throws \<open>SyntaxError\<close>).
\<close>

datatype json =
  JsonNull | JsonBool bool | JsonNumber number | JsonString string
  | JsonArray "json list" | JsonObject "(string \<times> json) list"

record runtime =
  numberToString :: "number \<Rightarrow> string"
  toFixed2 :: "number \<Rightarrow> string"
  parseFloatString :: "string \<Rightarrow> number"
  dateParse :: "string \<Rightarrow> number"
  jsonParse :: "string \<Rightarrow> json option"

text \<open>
  \<open>parseFloat\<close> converts its argument to a string and reads a number from its start. On a
  number this gives the number back; on a boolean, \<open>null\<close> or \<open>undefined\<close> it gives \<open>NaN\<close>.
\<close>

fun parseFloat :: "runtime \<Rightarrow> jsval \<Rightarrow> number" where
  "parseFloat rt (JString s) = parseFloatString rt s"
| "parseFloat rt (JNumber n) = n"
| "parseFloat rt _ = NaN"

text \<open>
  The time value of \<open>new Date(v)\<close> in milliseconds, \<open>NaN\<close> for an invalid date: a string
  is parsed, any other value is converted to a number.
\<close>

fun new_Date :: "runtime \<Rightarrow> jsval \<Rightarrow> number" where
  "new_Date rt (JString s) = dateParse rt s"
| "new_Date rt (JNumber n) = n"
| "new_Date rt (JBool b) = Num (if b then 1 else 0)"
| "new_Date rt JNull = Num 0"
| "new_Date rt JUndefined = NaN"

subsection \<open>Strings\<close>

text \<open>\<open>toUpperCase\<close> and \<open>toLowerCase\<close> on the ASCII letters; other bytes are kept.\<close>

definition upper_char :: "char \<Rightarrow> char" where
  "upper_char c =
    (let n = (of_char c :: nat) in if 97 \<le> n \<and> n \<le> 122 then char_of (n - 32) else c)"

definition lower_char :: "char \<Rightarrow> char" where
  "lower_char c =
    (let n = (of_char c :: nat) in if 65 \<le> n \<and> n \<le> 90 then char_of (n + 32) else c)"

definition toUpperCase :: "string \<Rightarrow> string" where
  "toUpperCase s = map upper_char s"

definition toLowerCase :: "string \<Rightarrow> string" where
  "toLowerCase s = map lower_char s"

section \<open>Step 9: the rule engine\<close>

datatype decision = YES | NO | REVIEW

definition COLLATERAL_MARGINS :: "(string \<times> rat) list" where
  "COLLATERAL_MARGINS =
    [(''FD'', 0),
     (''LIQUID_SECURITY'', 15 / 100),
     (''GOVT_BOND'', 10 / 100),
     (''CASH'', 0),
     (''PROPERTY'', 40 / 100),
     (''MACHINERY'', 50 / 100),
     (''RECEIVABLES'', 25 / 100)]"

text \<open>
  \<open>COLLATERAL_MARGINS\<close> is an object literal, so besides its own seven keys it inherits
  the properties of \<open>Object.prototype\<close>. The operator \<open>in\<close> and the bracket lookup see both.
\<close>

definition Object_prototype_keys :: "string list" where
  "Object_prototype_keys =
    [''constructor'', ''__defineGetter__'', ''__defineSetter__'', ''hasOwnProperty'',
     ''__lookupGetter__'', ''__lookupSetter__'', ''isPrototypeOf'', ''propertyIsEnumerable'',
     ''toString'', ''valueOf'', ''__proto__'', ''toLocaleString'']"

definition has_property :: "(string \<times> rat) list \<Rightarrow> string \<Rightarrow> bool" where
  "has_property obj key = (key \<in> set (map fst obj) \<or> key \<in> set Object_prototype_keys)"

text \<open>
  What a lookup in the table yields: an own number, an inherited function or object, or
  \<open>undefined\<close>. The field \<open>margin\<close> of the result holds \<open>null\<close> (here \<open>None\<close>) or such a value.
\<close>

datatype lookup = Own rat | Inherited | Undefined

definition get_property :: "(string \<times> rat) list \<Rightarrow> string \<Rightarrow> lookup" where
  "get_property obj key =
    (case map_of obj key of
       Some m \<Rightarrow> Own m
     | None \<Rightarrow> if key \<in> set Object_prototype_keys then Inherited else Undefined)"

text \<open>\<open>ToNumber\<close> of a looked-up value: a function, an object and \<open>undefined\<close> give \<open>NaN\<close>.\<close>

fun ToNumber :: "lookup \<Rightarrow> number" where
  "ToNumber (Own m) = Num m"
| "ToNumber _ = NaN"

record decision_result =
  decision :: decision
  margin :: "lookup option"
  eligibleValue :: number
  reason :: string

definition ge_sign :: string where
  "ge_sign = [CHR 0xE2, CHR 0x89, CHR 0xA5]"

definition lcDecision :: "runtime \<Rightarrow> string \<Rightarrow> number \<Rightarrow> number \<Rightarrow> decision_result" where
  "lcDecision rt collateralType collateralValue lcAmount =
    (if \<not> has_property COLLATERAL_MARGINS collateralType then
       \<lparr>decision = REVIEW,
        margin = None,
        eligibleValue = Num 0,
        reason = ''Unknown collateral type: '' @ collateralType @ ''. Manual review required.''\<rparr>
     else
       let margin = get_property COLLATERAL_MARGINS collateralType;
           eligibleValue = nmul collateralValue (nsub (Num 1) (ToNumber margin));
           decision = (if nge eligibleValue lcAmount then YES
                       else if nge eligibleValue (nmul lcAmount (Num (75 / 100))) then REVIEW
                       else NO);
           reason = (if decision = YES then
                       ''Collateral sufficient. Eligible value '' @ toFixed2 rt eligibleValue
                         @ '' '' @ ge_sign @ '' LC Amount '' @ numberToString rt lcAmount @ ''.''
                     else if decision = REVIEW then
                       ''Collateral partially covers LC. Eligible '' @ toFixed2 rt eligibleValue
                         @ '' is 75-100% of LC Amount '' @ numberToString rt lcAmount
                         @ ''. Manual review advised.''
                     else
                       ''Insufficient collateral. Eligible value '' @ toFixed2 rt eligibleValue
                         @ '' < LC Amount '' @ numberToString rt lcAmount @ ''.'')
       in \<lparr>decision = decision, margin = Some margin, eligibleValue = eligibleValue,
           reason = reason\<rparr>)"

text \<open>The order of the three outcomes: NO below REVIEW below YES.\<close>

fun decision_rank :: "decision \<Rightarrow> nat" where
  "decision_rank NO = 0"
| "decision_rank REVIEW = 1"
| "decision_rank YES = 2"

text \<open>The haircut table as the specification prints it, in percent.\<close>

definition haircut_table :: "(string \<times> rat) list" where
  "haircut_table =
    [(''FD'', 0), (''CASH'', 0), (''GOVT_BOND'', 10), (''LIQUID_SECURITY'', 15),
     (''RECEIVABLES'', 25), (''PROPERTY'', 40), (''MACHINERY'', 50)]"

text \<open>
  A runtime to run the model on concrete inputs. It prints integers and short decimal
  fractions in decimal and amounts with two decimals, reads a decimal number without
  exponent from the start of a string, knows the time values of a few dates (midnight
  UTC), and reads the JSON text of an array of plain strings or of a whole number.
\<close>

fun digits_of :: "nat \<Rightarrow> nat \<Rightarrow> string" where
  "digits_of 0 n = []"
| "digits_of (Suc fuel) n =
     (if n < 10 then [char_of (48 + n)]
      else digits_of fuel (n div 10) @ [char_of (48 + n mod 10)])"

fun fraction_digits :: "nat \<Rightarrow> rat \<Rightarrow> string" where
  "fraction_digits 0 r = []"
| "fraction_digits (Suc fuel) r =
     (if r = 0 then []
      else char_of (48 + nat \<lfloor>r * 10\<rfloor>)
           # fraction_digits fuel (r * 10 - of_int \<lfloor>r * 10\<rfloor>))"

definition decimal_number :: "number \<Rightarrow> string" where
  "decimal_number x =
    (case x of NaN \<Rightarrow> ''NaN''
     | Num q \<Rightarrow>
         (let f = \<bar>q\<bar> - of_int \<lfloor>\<bar>q\<bar>\<rfloor>
          in (if q < 0 then ''-'' else []) @ digits_of 30 (nat \<lfloor>\<bar>q\<bar>\<rfloor>)
             @ (if f = 0 then [] else ''.'' @ fraction_digits 20 f)))"

definition decimal_fixed2 :: "number \<Rightarrow> string" where
  "decimal_fixed2 x =
    (case x of NaN \<Rightarrow> ''NaN''
     | Num q \<Rightarrow>
         (let n = nat \<lfloor>\<bar>q\<bar> * 100 + 1 / 2\<rfloor>
          in (if q < 0 then ''-'' else []) @ digits_of 30 (n div 100) @ ''.''
             @ digits_of 1 (n mod 100 div 10) @ digits_of 1 (n mod 10)))"

definition is_digit :: "char \<Rightarrow> bool" where
  "is_digit c = (48 \<le> (of_char c :: nat) \<and> (of_char c :: nat) \<le> 57)"

definition digits_value :: "string \<Rightarrow> nat" where
  "digits_value ds = foldl (\<lambda>acc c. 10 * acc + ((of_char c :: nat) - 48)) 0 ds"

definition read_decimal :: "string \<Rightarrow> number" where
  "read_decimal s =
    (let s1 = dropWhile (\<lambda>c. c \<in> set [CHR 0x20, CHR 0x09, CHR 0x0A, CHR 0x0B, CHR 0x0C, CHR 0x0D]) s;
         negative = (s1 \<noteq> [] \<and> hd s1 = CHR ''-'');
         s2 = (if s1 \<noteq> [] \<and> (hd s1 = CHR ''-'' \<or> hd s1 = CHR ''+'') then tl s1 else s1);
         ip = takeWhile is_digit s2;
         r = dropWhile is_digit s2;
         fp = (if r \<noteq> [] \<and> hd r = CHR ''.'' then takeWhile is_digit (tl r) else [])
     in if ip = [] \<and> fp = [] then NaN
        else Num ((if negative then - 1 else 1)
                  * (of_nat (digits_value ip) + of_nat (digits_value fp) / 10 ^ length fp)))"

text \<open>The texts between double quotes, in order.\<close>

fun quoted_scan :: "string \<Rightarrow> bool \<Rightarrow> string \<Rightarrow> string list" where
  "quoted_scan [] inside cur = []"
| "quoted_scan (c # cs) inside cur =
     (if c = CHR 0x22 then
        (if inside then cur # quoted_scan cs False [] else quoted_scan cs True [])
      else if inside then quoted_scan cs True (cur @ [c])
      else quoted_scan cs False [])"

definition quoted_strings :: "string \<Rightarrow> string list" where
  "quoted_strings s = quoted_scan s False []"

text \<open>
  The sample reader of JSON knows two forms: an array of plain strings between brackets,
  and a number written with digits only.
\<close>

definition sample_parse :: "string \<Rightarrow> json option" where
  "sample_parse s =
    (if s \<noteq> [] \<and> hd s = CHR ''['' \<and> last s = CHR '']''
     then Some (JsonArray (map JsonString (quoted_strings s)))
     else if s \<noteq> [] \<and> list_all is_digit s
     then Some (JsonNumber (Num (of_nat (digits_value s))))
     else None)"

definition sample_dates :: "(string \<times> rat) list" where
  "sample_dates =
    [(''2025-01-01'', 1735689600000), (''2025-03-15'', 1741996800000),
     (''2025-06-30'', 1751241600000), (''2026-01-01'', 1767225600000)]"

definition sample_runtime :: runtime where
  "sample_runtime =
    \<lparr>numberToString = decimal_number, toFixed2 = decimal_fixed2,
     parseFloatString = read_decimal,
     dateParse = (\<lambda>s. case map_of sample_dates s of Some t \<Rightarrow> Num t | None \<Rightarrow> NaN),
     jsonParse = sample_parse\<rparr>"

section \<open>Amount in words\<close>








section \<open>Section 2B of the generator: fees and commission\<close>

text \<open>
  \<open>trim\<close> removes the white space and the line terminators of the language at both ends
  of a string. \<open>WhiteSpace\<close> lists them in UTF-8: U+0009 to U+000D, U+0020, U+00A0, U+1680,
  U+2000 to U+200A, U+2028, U+2029, U+202F, U+205F, U+3000 and U+FEFF.
\<close>

definition WhiteSpace :: "string list" where
  "WhiteSpace =
    [[CHR 0x09], [CHR 0x0A], [CHR 0x0B], [CHR 0x0C], [CHR 0x0D], [CHR 0x20],
     [CHR 0xC2, CHR 0xA0], [CHR 0xE1, CHR 0x9A, CHR 0x80],
     [CHR 0xE2, CHR 0x80, CHR 0x80], [CHR 0xE2, CHR 0x80, CHR 0x81],
     [CHR 0xE2, CHR 0x80, CHR 0x82], [CHR 0xE2, CHR 0x80, CHR 0x83],
     [CHR 0xE2, CHR 0x80, CHR 0x84], [CHR 0xE2, CHR 0x80, CHR 0x85],
     [CHR 0xE2, CHR 0x80, CHR 0x86], [CHR 0xE2, CHR 0x80, CHR 0x87],
     [CHR 0xE2, CHR 0x80, CHR 0x88], [CHR 0xE2, CHR 0x80, CHR 0x89],
     [CHR 0xE2, CHR 0x80, CHR 0x8A], [CHR 0xE2, CHR 0x80, CHR 0xA8],
     [CHR 0xE2, CHR 0x80, CHR 0xA9], [CHR 0xE2, CHR 0x80, CHR 0xAF],
     [CHR 0xE2, CHR 0x81, CHR 0x9F], [CHR 0xE3, CHR 0x80, CHR 0x80],
     [CHR 0xEF, CHR 0xBB, CHR 0xBF]]"

text \<open>
  Removing from the start of a string, as long as there is one, a text of the list \<open>ws\<close>;
  \<open>k\<close> counts the characters of a found text that are still to be removed.
\<close>

fun strip_start :: "string list \<Rightarrow> nat \<Rightarrow> string \<Rightarrow> string" where
  "strip_start ws k [] = []"
| "strip_start ws k (c # s) =
    (if 0 < k then strip_start ws (k - 1) s
     else case find (\<lambda>w. w \<noteq> [] \<and> prefix w (c # s)) ws of
            None \<Rightarrow> c # s
          | Some w \<Rightarrow> strip_start ws (length w - 1) s)"

definition trim :: "string \<Rightarrow> string" where
  "trim s = rev (strip_start (map rev WhiteSpace) 0 (rev (strip_start WhiteSpace 0 s)))"

record tenor_band =
  maxMonths :: rat
  label :: string
  minRate :: rat
  maxRate :: rat
  midRate :: rat

definition tenorBands :: "tenor_band list" where
  "tenorBands =
    [\<lparr>maxMonths = 3, label = ''Up to 3 months'', minRate = 10 / 100, maxRate = 50 / 100,
      midRate = 30 / 100\<rparr>,
     \<lparr>maxMonths = 6, label = ''Up to 6 months'', minRate = 20 / 100, maxRate = 100 / 100,
      midRate = 60 / 100\<rparr>,
     \<lparr>maxMonths = 12, label = ''Up to 1 year'', minRate = 40 / 100, maxRate = 200 / 100,
      midRate = 120 / 100\<rparr>,
     \<lparr>maxMonths = 999, label = ''Over 1 year'', minRate = 60 / 100, maxRate = 250 / 100,
      midRate = 155 / 100\<rparr>]"

definition advisingFee_amount :: rat where "advisingFee_amount = 5000"
definition amendmentFee_amount :: rat where "amendmentFee_amount = 2500"
definition courierSwiftCharges_amount :: rat where "courierSwiftCharges_amount = 3500"
definition negotiationFeePct :: rat where "negotiationFeePct = 125 / 1000"
definition confirmationPremiumPct :: rat where "confirmationPremiumPct = 15 / 100"
definition gstRate :: rat where "gstRate = 18"

definition round2 :: "number \<Rightarrow> number" where
  "round2 n = ndiv (nround (nmul n (Num 100))) (Num 100)"

text \<open>
  The tenor in months: 3 unless the expiry date is given and valid, else the number of
  periods of 30.44 days from now to the expiry, rounded up, and at least 1.
\<close>

definition tenor_of :: "runtime \<Rightarrow> rat \<Rightarrow> object \<Rightarrow> rat" where
  "tenor_of rt issueDate data =
    (if truthy (data ''lcExpiryDate'') then
       (case new_Date rt (data ''lcExpiryDate'') of
          NaN \<Rightarrow> 3
        | Num expiryDate \<Rightarrow>
            let diffMs = expiryDate - issueDate
            in max 1 (Math_ceil (diffMs / (1000 * 60 * 60 * 24 * (3044 / 100)))))
     else 3)"

text \<open>
  \<open>tenorBands.find(b => tenorMonths <= b.maxMonths) || tenorBands[tenorBands.length - 1]\<close>
\<close>

definition band_of :: "rat \<Rightarrow> tenor_band" where
  "band_of tenorMonths =
    (case find (\<lambda>b. tenorMonths \<le> maxMonths b) tenorBands of
       Some b \<Rightarrow> b
     | None \<Rightarrow> last tenorBands)"

text \<open>
  \<open>!!(data.confirmingBank && data.confirmingBank.trim())\<close>: a truthy value that is not a
  string has no method \<open>trim\<close>.
\<close>

definition hasConfirmation_of :: "object \<Rightarrow> js_error + bool" where
  "hasConfirmation_of data =
    (if truthy (data ''confirmingBank'') then
       (case data ''confirmingBank'' of
          JString s \<Rightarrow> Inr (trim s \<noteq> [])
        | _ \<Rightarrow> Inl TypeError)
     else Inr False)"

text \<open>\<open>(data.lcCurrency || 'USD').toUpperCase()\<close>\<close>

definition currency_of :: "object \<Rightarrow> js_error + string" where
  "currency_of data =
    (case or_else (data ''lcCurrency'') (JString ''USD'') of
       JString s \<Rightarrow> Inr (toUpperCase s)
     | _ \<Rightarrow> Inl TypeError)"

record fee_row =
  row_item :: string
  row_rate :: string
  row_amount :: number
  row_currency :: string
  row_type :: string

text \<open>
  The schedule that \<open>calculateLCFees\<close> returns. Its property \<open>amendmentFee\<close> is shown by
  its amount (the currency is INR), and its properties \<open>gstRate\<close> and \<open>note\<close> are the
  fields \<open>schedule_gstRate\<close> and \<open>schedule_note\<close>.
\<close>

record fee_schedule =
  tenorMonths :: rat
  tenorBand :: string
  commissionRange :: string
  appliedRate :: rat
  currency :: string
  lcAmount :: number
  breakdown :: "fee_row list"
  amendmentFee :: rat
  subtotal :: number
  schedule_gstRate :: rat
  gstAmount :: number
  grandTotal :: number
  totalVariableFees :: number
  totalFixedFees :: number
  schedule_note :: string

definition en_dash :: string where
  "en_dash = [CHR 0xE2, CHR 0x80, CHR 0x93]"

text \<open>
  The sum of all fees before tax, as \<open>calculateLCFees\<close> computes it (its local
  \<open>totalFeesBeforeGST\<close>) from the amount, the applied rate and the confirmation flag.
\<close>

definition totalVariableFees_of :: "number \<Rightarrow> rat \<Rightarrow> bool \<Rightarrow> number" where
  "totalVariableFees_of amount issuanceCommissionPct hasConfirmation =
    (let issuanceCommission = ndiv (nmul amount (Num issuanceCommissionPct)) (Num 100);
         negotiationFee = ndiv (nmul amount (Num negotiationFeePct)) (Num 100);
         confirmationPremium =
           (if hasConfirmation then ndiv (nmul amount (Num confirmationPremiumPct)) (Num 100)
            else Num 0)
     in nadd (nadd issuanceCommission negotiationFee) confirmationPremium)"

definition totalFixedFees_of :: rat where
  "totalFixedFees_of = advisingFee_amount + courierSwiftCharges_amount"

definition totalFeesBeforeGST_of :: "number \<Rightarrow> rat \<Rightarrow> bool \<Rightarrow> number" where
  "totalFeesBeforeGST_of amount issuanceCommissionPct hasConfirmation =
    nadd (totalVariableFees_of amount issuanceCommissionPct hasConfirmation)
      (Num totalFixedFees_of)"

definition calculateLCFees :: "runtime \<Rightarrow> rat \<Rightarrow> object \<Rightarrow> js_error + fee_schedule" where
  "calculateLCFees rt issueDate data =
    (let amount = parseFloat rt (or_else (data ''lcAmount'') (JNumber (Num 0))) in
     case currency_of data of
       Inl e \<Rightarrow> Inl e
     | Inr cur \<Rightarrow>
     let currency = cur;
         tenorMonths = tenor_of rt issueDate data;
         band = band_of tenorMonths;
         issuanceCommissionPct = midRate band;
         issuanceCommission = ndiv (nmul amount (Num issuanceCommissionPct)) (Num 100);
         negotiationFee = ndiv (nmul amount (Num negotiationFeePct)) (Num 100)
     in
     case hasConfirmation_of data of
       Inl e \<Rightarrow> Inl e
     | Inr conf \<Rightarrow>
     let hasConfirmation = conf;
         confirmationPremium =
           (if hasConfirmation then ndiv (nmul amount (Num confirmationPremiumPct)) (Num 100)
            else Num 0);
         advisingFee = advisingFee_amount;
         amendmentFee = amendmentFee_amount;
         courierSwift = courierSwiftCharges_amount;
         totalVariableFees = totalVariableFees_of amount issuanceCommissionPct hasConfirmation;
         totalFixedFees = totalFixedFees_of;
         gstOnVariable = ndiv (nmul totalVariableFees (Num gstRate)) (Num 100);
         gstOnFixed = ndiv (nmul (Num totalFixedFees) (Num gstRate)) (Num 100);
         totalFeesBeforeGST = totalFeesBeforeGST_of amount issuanceCommissionPct hasConfirmation;
         totalGST = nadd gstOnVariable gstOnFixed;
         grandTotal = nadd totalFeesBeforeGST totalGST
     in Inr
       \<lparr>tenorMonths = tenorMonths,
        tenorBand = label band,
        commissionRange = numberToString rt (Num (minRate band)) @ ''% '' @ en_dash @ '' ''
                          @ numberToString rt (Num (maxRate band)) @ ''%'',
        appliedRate = midRate band,
        currency = currency,
        lcAmount = amount,
        breakdown =
          [\<lparr>row_item = ''LC Issuance Commission'',
            row_rate = numberToString rt (Num issuanceCommissionPct) @ ''%'',
            row_amount = round2 issuanceCommission, row_currency = currency,
            row_type = ''variable''\<rparr>,
           \<lparr>row_item = ''Negotiation / Acceptance Fee'',
            row_rate = numberToString rt (Num negotiationFeePct) @ ''%'',
            row_amount = round2 negotiationFee, row_currency = currency,
            row_type = ''variable''\<rparr>]
          @ (if hasConfirmation then
               [\<lparr>row_item = ''Confirmation Premium'',
                 row_rate = numberToString rt (Num confirmationPremiumPct) @ ''%'',
                 row_amount = round2 confirmationPremium, row_currency = currency,
                 row_type = ''variable''\<rparr>]
             else [])
          @ [\<lparr>row_item = ''Advising Fee (Flat)'', row_rate = ''Flat'', row_amount = Num advisingFee,
              row_currency = ''INR'', row_type = ''fixed''\<rparr>,
             \<lparr>row_item = ''Courier / SWIFT Charges'', row_rate = ''Flat'', row_amount = Num courierSwift,
              row_currency = ''INR'', row_type = ''fixed''\<rparr>],
        amendmentFee = amendmentFee,
        subtotal = round2 totalFeesBeforeGST,
        schedule_gstRate = gstRate,
        gstAmount = round2 totalGST,
        grandTotal = round2 grandTotal,
        totalVariableFees = round2 totalVariableFees,
        totalFixedFees = round2 (Num totalFixedFees),
        schedule_note = ''Rates are indicative based on standard corporate schedule. ''
                        @ ''Final rates subject to relationship pricing and credit assessment.''\<rparr>)"


section \<open>Section 1 of the generator: the mandatory field validator\<close>

definition MANDATORY_FIELDS :: "(string \<times> string) list" where
  "MANDATORY_FIELDS =
    [(''applicantName'', ''Applicant Name''),
     (''beneficiaryName'', ''Beneficiary Name''),
     (''lcAmount'', ''LC Amount''),
     (''lcCurrency'', ''LC Currency''),
     (''lcExpiryDate'', ''Expiry Date''),
     (''portLoading'', ''Port of Loading''),
     (''portDischarge'', ''Port of Discharge''),
     (''goodsDesc'', ''Description of Goods''),
     (''paymentTerms'', ''Payment Terms''),
     (''issuingBank'', ''Issuing Bank'')]"

text \<open>\<open>String(v)\<close>, also what a template literal prints for \<open>v\<close>.\<close>

fun String_of :: "runtime \<Rightarrow> jsval \<Rightarrow> string" where
  "String_of rt (JString s) = s"
| "String_of rt (JNumber n) = numberToString rt n"
| "String_of rt (JBool b) = (if b then ''true'' else ''false'')"
| "String_of rt JNull = ''null''"
| "String_of rt JUndefined = ''undefined''"

record field_status =
  fs_label :: string
  fs_present :: bool
  fs_value :: jsval

record validation =
  valid :: bool
  missing :: "string list"
  warnings :: "string list"
  fieldStatus :: "string \<rightharpoonup> field_status"

text \<open>The test of the loop body: is the value of a mandatory field present?\<close>

definition field_present :: "runtime \<Rightarrow> jsval \<Rightarrow> bool" where
  "field_present rt val =
    (val \<noteq> JUndefined \<and> val \<noteq> JNull \<and> trim (String_of rt val) \<noteq> []
     \<and> trim (String_of rt val) \<noteq> ''0'')"

text \<open>
  The loop over \<open>MANDATORY_FIELDS\<close>; the state is the list \<open>missing\<close> and the object
  \<open>fieldStatus\<close>.
\<close>

fun validate_loop ::
  "runtime \<Rightarrow> object \<Rightarrow> (string \<times> string) list
     \<Rightarrow> string list \<times> (string \<rightharpoonup> field_status)
     \<Rightarrow> string list \<times> (string \<rightharpoonup> field_status)" where
  "validate_loop rt data [] st = st"
| "validate_loop rt data ((key, lbl) # rest) (mis, fs) =
    (let val = data key;
         present = field_present rt val;
         fs' = fs(key \<mapsto> \<lparr>fs_label = lbl, fs_present = present, fs_value = val\<rparr>);
         mis' = (if \<not> present then mis @ [lbl] else mis)
     in validate_loop rt data rest (mis', fs'))"

definition validCurrencies :: "string list" where
  "validCurrencies =
    [''USD'', ''EUR'', ''GBP'', ''INR'', ''JPY'', ''AED'', ''SGD'', ''CNY'', ''CHF'', ''CAD'',
     ''AUD'']"

definition em_dash :: string where
  "em_dash = [CHR 0xE2, CHR 0x80, CHR 0x94]"

text \<open>The three consistency checks, each adding at most one warning.\<close>

definition date_warning :: "runtime \<Rightarrow> object \<Rightarrow> string list" where
  "date_warning rt data =
    (if truthy (data ''latestShipDate'') \<and> truthy (data ''lcExpiryDate'') then
       (let shipD = new_Date rt (data ''latestShipDate'');
            expD = new_Date rt (data ''lcExpiryDate'')
        in if nge shipD expD then
             [''Latest shipment date ('' @ String_of rt (data ''latestShipDate'')
              @ '') must be before LC expiry date ('' @ String_of rt (data ''lcExpiryDate'')
              @ '') '' @ em_dash @ '' UCP 600 Art. 29.'']
           else [])
     else [])"

definition amount_warning :: "runtime \<Rightarrow> object \<Rightarrow> string list" where
  "amount_warning rt data =
    (if truthy (data ''lcAmount'') \<and> nle (parseFloat rt (data ''lcAmount'')) (Num 0)
     then [''LC Amount must be greater than zero.''] else [])"

definition currency_warning :: "object \<Rightarrow> js_error + string list" where
  "currency_warning data =
    (if truthy (data ''lcCurrency'') then
       (case data ''lcCurrency'' of
          JString s \<Rightarrow>
            Inr (if toUpperCase s \<notin> set validCurrencies
                 then [''Currency '' @ [CHR 0x22] @ s @ [CHR 0x22]
                       @ '' is non-standard. Verify ISO 4217 code.'']
                 else [])
        | _ \<Rightarrow> Inl TypeError)
     else Inr [])"

definition validateLC :: "runtime \<Rightarrow> object \<Rightarrow> js_error + validation" where
  "validateLC rt data =
    (case validate_loop rt data MANDATORY_FIELDS ([], Map.empty) of
       (mis, fs) \<Rightarrow>
         (case currency_warning data of
            Inl e \<Rightarrow> Inl e
          | Inr cw \<Rightarrow>
              Inr \<lparr>valid = (length mis = 0),
                   missing = mis,
                   warnings = date_warning rt data @ amount_warning rt data @ cw,
                   fieldStatus = fs\<rparr>))"

text \<open>
  An application with a blank beneficiary, the amount 0, payment terms that consist of a
  no-break space and an ideographic space, and no issuing bank.
\<close>

definition validate_example :: object where
  "validate_example =
    object_of [(''applicantName'', JString ''Infosys Technologies Ltd.''),
      (''beneficiaryName'', JString ''   ''),
      (''lcAmount'', JNumber (Num 0)),
      (''lcCurrency'', JString ''EUR''),
      (''lcExpiryDate'', JString ''2025-06-30''),
      (''portLoading'', JString ''Hamburg Port, Germany''),
      (''portDischarge'', JString ''JNPT, Mumbai, India''),
      (''goodsDesc'', JString ''Industrial CNC Laser Cutting Machines''),
      (''paymentTerms'', JString [CHR 0xC2, CHR 0xA0, CHR 0xE3, CHR 0x80, CHR 0x80])]"

section \<open>Section 2 of the generator: the tolerance clause\<close>

text \<open>
  \<open>generateClauses\<close> returns an object of ten clauses. Modelled here is its property
  \<open>toleranceClause\<close>: the local \<open>tol\<close> and the clause built from it. Before it the function
  calls \<open>toUpperCase\<close> or \<open>toLowerCase\<close> on \<open>d.incoterms || ''\<close>, \<open>d.specialInstructions || ''\<close>,
  \<open>d.paymentTerms || 'At Sight'\<close> and \<open>d.lcType || 'Sight'\<close>, which throws when one of
  these fields is truthy and not a string; nothing else in the function can throw.
\<close>

definition tol_of :: "runtime \<Rightarrow> object \<Rightarrow> number" where
  "tol_of rt d = parseFloat rt (or_else (d ''tolerancePct'') (JNumber (Num 5)))"

definition tolerance_text :: "string \<Rightarrow> string" where
  "tolerance_text pct =
    ''Tolerance Clause: A tolerance of '' @ pct @ ''% more or '' @ pct
    @ ''% less in both the unit price and quantity of goods described herein is acceptable, ''
    @ ''provided the total drawing amount does not exceed the face value of this documentary ''
    @ ''credit. This tolerance applies per UCP 600 Article 30.''"

definition no_tolerance_text :: string where
  "no_tolerance_text =
    ''Tolerance Clause: NO tolerance is permitted. The amount drawn must be exactly equal ''
    @ ''to the LC face value. Partial drawings are subject to the partial shipment clause.''"

definition toleranceClause_of :: "runtime \<Rightarrow> object \<Rightarrow> js_error + string" where
  "toleranceClause_of rt d =
    (if string_or_falsy (d ''incoterms'') \<and> string_or_falsy (d ''specialInstructions'')
        \<and> string_or_falsy (d ''paymentTerms'') \<and> string_or_falsy (d ''lcType'')
     then
       (let tol = tol_of rt d
        in Inr (if ngt tol (Num 0) then tolerance_text (numberToString rt tol)
                else no_tolerance_text))
     else Inl TypeError)"

text \<open>
  An application of the seed data with a tolerance of 0, as the server hands it to the
  generator: the tolerance is the number read from the database.
\<close>

definition zero_tolerance_example :: object where
  "zero_tolerance_example =
    object_of [(''applicantName'', JString ''Novus Pharma Exports''),
      (''lcAmount'', JNumber (Num 900000)), (''lcCurrency'', JString ''USD''),
      (''lcType'', JString ''Standby''), (''tolerancePct'', JNumber (Num 0)),
      (''incoterms'', JString ''DDP''), (''paymentTerms'', JString ''At Sight''),
      (''specialInstructions'', JString ''Urgent within 24 hours.'')]"

section \<open>The discrepancy review engine\<close>

text \<open>\<open>a.includes(b)\<close> on strings: \<open>b\<close> occurs in \<open>a\<close>.\<close>

fun includes_str :: "string \<Rightarrow> string \<Rightarrow> bool" where
  "includes_str [] sub = (sub = [])"
| "includes_str (c # cs) sub = (prefix sub (c # cs) \<or> includes_str cs sub)"

text \<open>\<open>parseFloat(v) || d\<close>: the default replaces \<open>NaN\<close> and 0.\<close>

definition num_or :: "number \<Rightarrow> rat \<Rightarrow> rat" where
  "num_or n d = (case n of NaN \<Rightarrow> d | Num x \<Rightarrow> if x = 0 then d else x)"

text \<open>\<open>(v || '')\<close> for a field that is a string or falsy.\<close>

definition string_or_empty :: "jsval \<Rightarrow> string" where
  "string_or_empty v = (case v of JString s \<Rightarrow> s | _ \<Rightarrow> [])"

datatype severity = MINOR | MAJOR | FATAL

record discrepancy =
  field_name :: string
  lc_value :: jsval
  doc_value :: jsval
  severity :: severity
  rule_matched :: string
  description :: string

datatype verdict = DISCREPANT | MINOR_DISCREPANCIES | COMPLIANT

record summary =
  overall :: verdict
  fatal :: nat
  major :: nat
  minor :: nat
  total :: nat

record examination =
  discrepancies :: "discrepancy list"
  summary :: summary

text \<open>Rule 1, the amount check with tolerance.\<close>

definition amount_rule :: "runtime \<Rightarrow> object \<Rightarrow> object \<Rightarrow> discrepancy list" where
  "amount_rule rt lcApp docPresentation =
    (let lcAmt = num_or (parseFloat rt (lcApp ''lc_amount'')) 0;
         invoiceAmt = num_or (parseFloat rt (docPresentation ''invoice_amount'')) 0;
         tolerance = num_or (parseFloat rt (lcApp ''tolerance_pct'')) 5;
         maxAmt = lcAmt * (1 + tolerance / 100);
         minAmt = lcAmt * (1 - tolerance / 100)
     in if invoiceAmt > maxAmt then
          [\<lparr>field_name = ''Invoice Amount'',
            lc_value = JString (String_of rt (lcApp ''lc_currency'') @ '' ''
                                @ numberToString rt (Num lcAmt)),
            doc_value = JString (String_of rt (docPresentation ''invoice_currency'') @ '' ''
                                 @ numberToString rt (Num invoiceAmt)),
            severity = MAJOR,
            rule_matched = ''AMOUNT_EXCEEDS_TOLERANCE'',
            description = ''Invoice amount exceeds LC amount + ''
                          @ numberToString rt (Num tolerance)
                          @ ''% tolerance. Max allowed: '' @ toFixed2 rt (Num maxAmt)\<rparr>]
        else if invoiceAmt < minAmt * (5 / 10) then
          [\<lparr>field_name = ''Invoice Amount'',
            lc_value = JString (String_of rt (lcApp ''lc_currency'') @ '' ''
                                @ numberToString rt (Num lcAmt)),
            doc_value = JString (String_of rt (docPresentation ''invoice_currency'') @ '' ''
                                 @ numberToString rt (Num invoiceAmt)),
            severity = MINOR,
            rule_matched = ''AMOUNT_SIGNIFICANTLY_BELOW'',
            description = ''Invoice amount is significantly below LC amount.''\<rparr>]
        else [])"

text \<open>Rule 2, the currency mismatch.\<close>

definition currency_rule :: "object \<Rightarrow> object \<Rightarrow> discrepancy list" where
  "currency_rule lcApp docPresentation =
    (let lcCur = toUpperCase (string_or_empty (lcApp ''lc_currency''));
         docCur = toUpperCase (string_or_empty (docPresentation ''invoice_currency''))
     in if docCur \<noteq> [] \<and> lcCur \<noteq> [] \<and> docCur \<noteq> lcCur then
          [\<lparr>field_name = ''Currency'', lc_value = JString lcCur, doc_value = JString docCur,
            severity = FATAL, rule_matched = ''CURRENCY_MISMATCH'',
            description = ''Document currency does not match LC currency.''\<rparr>]
        else [])"

text \<open>Rule 3, the late shipment.\<close>

definition shipment_rule :: "runtime \<Rightarrow> object \<Rightarrow> object \<Rightarrow> discrepancy list" where
  "shipment_rule rt lcApp docPresentation =
    (if truthy (lcApp ''latest_ship_date'') \<and> truthy (docPresentation ''shipment_date'') then
       (let lcShipDate = new_Date rt (lcApp ''latest_ship_date'');
            docShipDate = new_Date rt (docPresentation ''shipment_date'')
        in if ngt docShipDate lcShipDate then
             [\<lparr>field_name = ''Shipment Date'', lc_value = lcApp ''latest_ship_date'',
               doc_value = docPresentation ''shipment_date'', severity = MAJOR,
               rule_matched = ''LATE_SHIPMENT'',
               description = ''Shipment date exceeds the latest allowed shipment date in the LC.''\<rparr>]
           else [])
     else [])"

text \<open>Rules 4 and 5, the ports of loading and of discharge.\<close>

definition loading_rule :: "object \<Rightarrow> object \<Rightarrow> discrepancy list" where
  "loading_rule lcApp docPresentation =
    (let lcPort = trim (toLowerCase (string_or_empty (lcApp ''port_loading'')));
         docPort = trim (toLowerCase (string_or_empty (docPresentation ''shipment_port'')))
     in if lcPort \<noteq> [] \<and> docPort \<noteq> [] \<and> \<not> includes_str docPort lcPort
           \<and> \<not> includes_str lcPort docPort then
          [\<lparr>field_name = ''Port of Loading'', lc_value = lcApp ''port_loading'',
            doc_value = docPresentation ''shipment_port'', severity = MAJOR,
            rule_matched = ''PORT_MISMATCH'',
            description = ''Shipment port on B/L does not match LC port of loading.''\<rparr>]
        else [])"

definition discharge_rule :: "object \<Rightarrow> object \<Rightarrow> discrepancy list" where
  "discharge_rule lcApp docPresentation =
    (let lcDischarge = trim (toLowerCase (string_or_empty (lcApp ''port_discharge'')));
         docDischarge = trim (toLowerCase (string_or_empty (docPresentation ''discharge_port'')))
     in if lcDischarge \<noteq> [] \<and> docDischarge \<noteq> [] \<and> \<not> includes_str docDischarge lcDischarge
           \<and> \<not> includes_str lcDischarge docDischarge then
          [\<lparr>field_name = ''Port of Discharge'', lc_value = lcApp ''port_discharge'',
            doc_value = docPresentation ''discharge_port'', severity = MAJOR,
            rule_matched = ''DISCHARGE_PORT_MISMATCH'',
            description = ''Discharge port on B/L does not match LC.''\<rparr>]
        else [])"

text \<open>
  Rule 6, the missing required documents. \<open>presentedFlags\<close> maps the seven document names
  to the columns of the presentation, in this order.
\<close>

definition presentedFlags :: "object \<Rightarrow> (string \<times> jsval) list" where
  "presentedFlags docPresentation =
    [(''Commercial Invoice'', docPresentation ''commercial_invoice''),
     (''Bill of Lading'', docPresentation ''bill_of_lading''),
     (''Packing List'', docPresentation ''packing_list''),
     (''Certificate of Origin'', docPresentation ''certificate_of_origin''),
     (''Insurance Certificate'', docPresentation ''insurance_cert''),
     (''Inspection Certificate'', docPresentation ''inspection_cert''),
     (''Weight/Measurement Certificate'', docPresentation ''weight_cert'')]"

text \<open>
  \<open>safeJSON(v, fb)\<close> is \<open>JSON.parse(v)\<close> for a truthy \<open>v\<close>, and \<open>fb\<close> for a falsy \<open>v\<close> or when
  the parser throws. The parser reads the string form of its argument.
\<close>

definition safeJSON :: "runtime \<Rightarrow> jsval \<Rightarrow> json \<Rightarrow> json" where
  "safeJSON rt v fb =
    (if truthy v then (case jsonParse rt (String_of rt v) of Some j \<Rightarrow> j | None \<Rightarrow> fb)
     else fb)"

text \<open>
  The characters of a string, as the loop \<open>for (const doc of s)\<close> visits them: a byte
  from \<open>0x80\<close> to \<open>0xBF\<close> continues the character before it.
\<close>

definition is_continuation :: "char \<Rightarrow> bool" where
  "is_continuation c = (128 \<le> (of_char c :: nat) \<and> (of_char c :: nat) \<le> 191)"

definition code_points :: "string \<Rightarrow> string list" where
  "code_points s =
    (case foldr (\<lambda>c (pending, done).
                   if is_continuation c then (c # pending, done)
                   else ([], (c # pending) # done)) s ([], []) of
       (pending, done) \<Rightarrow> if pending = [] then done else pending # done)"

text \<open>
  The required documents that rule 6 visits: \<open>safeJSON(lcApp.documents, [])\<close>, which the
  loop \<open>for ... of\<close> can walk when it is an array or a string, and whose elements must be
  strings, since the loop body calls \<open>doc.toLowerCase()\<close> on each.
\<close>

fun json_string :: "json \<Rightarrow> string option" where
  "json_string (JsonString s) = Some s"
| "json_string _ = None"

definition requiredDocs_of :: "runtime \<Rightarrow> object \<Rightarrow> js_error + string list" where
  "requiredDocs_of rt lcApp =
    (case safeJSON rt (lcApp ''documents'') (JsonArray []) of
       JsonArray xs \<Rightarrow>
         if list_all (\<lambda>x. json_string x \<noteq> None) xs then Inr (map (\<lambda>x. the (json_string x)) xs)
         else Inl TypeError
     | JsonString s \<Rightarrow> Inr (code_points s)
     | _ \<Rightarrow> Inl TypeError)"

definition document_check :: "(string \<times> jsval) list \<Rightarrow> string \<Rightarrow> discrepancy list" where
  "document_check flags doc =
    (case find (\<lambda>(k, v). includes_str (toLowerCase doc)
                        (trim (takeWhile (\<lambda>c. c \<noteq> CHR ''/'') (toLowerCase k)))) flags of
       Some (k, v) \<Rightarrow>
         if \<not> truthy v \<or> v = JString ''No'' \<or> v = JString [] then
           [\<lparr>field_name = ''Document: '' @ doc, lc_value = JString ''Required'',
             doc_value = JString ''Not Presented'', severity = MAJOR,
             rule_matched = ''MISSING_DOCUMENT'',
             description = ''Required document '' @ [CHR 0x22] @ doc @ [CHR 0x22]
                           @ '' was not presented.''\<rparr>]
         else []
     | None \<Rightarrow> [])"

definition documents_rule :: "string list \<Rightarrow> object \<Rightarrow> discrepancy list" where
  "documents_rule requiredDocs docPresentation =
    concat (map (document_check (presentedFlags docPresentation)) requiredDocs)"

text \<open>Rule 7, the presentation more than 21 days after shipment.\<close>

definition presentation_rule :: "runtime \<Rightarrow> object \<Rightarrow> discrepancy list" where
  "presentation_rule rt docPresentation =
    (if truthy (docPresentation ''shipment_date'') \<and> truthy (docPresentation ''submitted_at'')
     then
       (let shipDate = new_Date rt (docPresentation ''shipment_date'');
            submitDate = new_Date rt (docPresentation ''submitted_at'');
            daysDiff = ndiv (nsub submitDate shipDate) (Num (1000 * 60 * 60 * 24))
        in if ngt daysDiff (Num 21) then
             [\<lparr>field_name = ''Presentation Period'', lc_value = JString ''21 days max'',
               doc_value = JString (numberToString rt (nround daysDiff) @ '' days''),
               severity = FATAL, rule_matched = ''LATE_PRESENTATION'',
               description = ''Documents presented more than 21 days after shipment date ''
                             @ ''(UCP 600 violation).''\<rparr>]
           else [])
     else [])"

text \<open>
  The whole check. The rules run one after the other and each appends to the list. The
  string methods of rules 2, 4 and 5 throw on a field that is truthy and not a string, and
  rule 6 throws when the required documents are not a list of strings.
\<close>

definition runDiscrepancyCheck ::
  "runtime \<Rightarrow> object \<Rightarrow> object \<Rightarrow> js_error + examination" where
  "runDiscrepancyCheck rt lcApp docPresentation =
    (if string_or_falsy (lcApp ''lc_currency'')
        \<and> string_or_falsy (docPresentation ''invoice_currency'')
        \<and> string_or_falsy (lcApp ''port_loading'')
        \<and> string_or_falsy (docPresentation ''shipment_port'')
        \<and> string_or_falsy (lcApp ''port_discharge'')
        \<and> string_or_falsy (docPresentation ''discharge_port'')
     then
       (case requiredDocs_of rt lcApp of
          Inl e \<Rightarrow> Inl e
        | Inr requiredDocs \<Rightarrow>
        let discrepancies =
              amount_rule rt lcApp docPresentation
              @ currency_rule lcApp docPresentation
              @ shipment_rule rt lcApp docPresentation
              @ loading_rule lcApp docPresentation
              @ discharge_rule lcApp docPresentation
              @ documents_rule requiredDocs docPresentation
              @ presentation_rule rt docPresentation;
            fatalCount = length (filter (\<lambda>d. severity d = FATAL) discrepancies);
            majorCount = length (filter (\<lambda>d. severity d = MAJOR) discrepancies);
            minorCount = length (filter (\<lambda>d. severity d = MINOR) discrepancies);
            overall = (if fatalCount > 0 then DISCREPANT
                       else if majorCount > 0 then DISCREPANT
                       else if minorCount > 0 then MINOR_DISCREPANCIES
                       else COMPLIANT)
        in Inr \<lparr>discrepancies = discrepancies,
                summary = \<lparr>overall = overall, fatal = fatalCount, major = majorCount,
                            minor = minorCount, total = length discrepancies\<rparr>\<rparr>)
     else Inl TypeError)"

text \<open>
  The seed application with a tolerance of 0 and LC amount 900,000, and a presentation
  whose invoice exceeds the LC amount by 20,000.
\<close>

definition zero_tolerance_lc :: object where
  "zero_tolerance_lc =
    object_of [(''ref'', JString ''BRC-LC-2024-39015''), (''lc_currency'', JString ''USD''),
      (''lc_amount'', JNumber (Num 900000)), (''tolerance_pct'', JNumber (Num 0)),
      (''port_loading'', JString ''New York''), (''port_discharge'', JString ''Hyderabad''),
      (''documents'',
       JString (''['' @ [CHR 0x22] @ ''Commercial Invoice'' @ [CHR 0x22] @ '','' @ [CHR 0x22]
                @ ''Packing List'' @ [CHR 0x22] @ '']''))]"

definition over_invoice :: object where
  "over_invoice =
    object_of [(''invoice_amount'', JNumber (Num 920000)), (''invoice_currency'', JString ''USD''),
      (''commercial_invoice'', JString ''Yes''), (''packing_list'', JString ''Yes''),
      (''shipment_port'', JString ''New York''), (''discharge_port'', JString ''Hyderabad'')]"

text \<open>The example of the specification: LC amount 100,000 with a tolerance of 5.\<close>

definition lc_100000 :: object where
  "lc_100000 =
    object_of [(''lc_currency'', JString ''USD''), (''lc_amount'', JNumber (Num 100000)),
      (''tolerance_pct'', JNumber (Num 5))]"

definition invoice_of :: "rat \<Rightarrow> object" where
  "invoice_of x =
    object_of [(''invoice_amount'', JNumber (Num x)), (''invoice_currency'', JString ''USD'')]"

text \<open>
  The rows as the database holds them: the text columns that the check reads with a
  string method are strings or empty, and the column \<open>documents\<close> is the JSON text of a
  list of strings.
\<close>

definition typed_rows :: "runtime \<Rightarrow> object \<Rightarrow> object \<Rightarrow> bool" where
  "typed_rows rt lcApp docPresentation =
    (string_or_falsy (lcApp ''lc_currency'')
     \<and> string_or_falsy (docPresentation ''invoice_currency'')
     \<and> string_or_falsy (lcApp ''port_loading'')
     \<and> string_or_falsy (docPresentation ''shipment_port'')
     \<and> string_or_falsy (lcApp ''port_discharge'')
     \<and> string_or_falsy (docPresentation ''discharge_port'')
     \<and> requiredDocs_of rt lcApp \<noteq> Inl TypeError)"

text \<open>The discrepancies raised on the field \<open>Invoice Amount\<close>.\<close>

definition on_invoice_amount :: "discrepancy list \<Rightarrow> discrepancy list" where
  "on_invoice_amount ds = filter (\<lambda>d. field_name d = ''Invoice Amount'') ds"

section \<open>Step 11: the MT700 draft generator\<close>

text \<open>\<open>(v || d)\<close> for a field that is a string or falsy and a default text \<open>d\<close>.\<close>

definition str_or :: "jsval \<Rightarrow> string \<Rightarrow> string" where
  "str_or v d = (case v of JString s \<Rightarrow> (if s = [] then d else s) | _ \<Rightarrow> d)"

text \<open>\<open>xs.join(sep)\<close>\<close>

fun join_with :: "string \<Rightarrow> string list \<Rightarrow> string" where
  "join_with sep [] = []"
| "join_with sep [x] = x"
| "join_with sep (x # y # ys) = x @ sep @ join_with sep (y # ys)"

text \<open>\<open>s.replace(/-/g, '')\<close>\<close>

definition remove_dashes :: "string \<Rightarrow> string" where
  "remove_dashes s = filter (\<lambda>c. c \<noteq> CHR ''-'') s"

text \<open>
  The fields of the row on which \<open>generateMT700\<close> calls a string method after a default or
  a truthiness test. The call throws when such a field is truthy and not a string.
\<close>

definition mt700_string_fields :: "string list" where
  "mt700_string_fields =
    [''lc_currency'', ''lc_expiry_date'', ''latest_ship_date'', ''lc_type'',
     ''lc_expiry_place'', ''applicant_name'', ''applicant_address'', ''applicant_city'',
     ''applicant_country'', ''beneficiary_name'', ''beneficiary_address'', ''beneficiary_city'',
     ''beneficiary_country'', ''advising_bank'', ''payment_terms'', ''issuing_bank'',
     ''port_loading'', ''port_discharge'', ''goods_desc'', ''quantity'', ''unit_price'',
     ''country_origin'', ''incoterms'', ''additional_docs'', ''special_instructions'',
     ''confirming_bank'']"

text \<open>
  \<open>safeJSON(app.documents, []).join(',\n   ')\<close>: only an array has the method \<open>join\<close>. It
  prints \<open>null\<close> as the empty text, an inner array by its own \<open>join(',')\<close> and an object
  as \<open>[object Object]\<close>.
\<close>

fun element_string :: "runtime \<Rightarrow> json \<Rightarrow> string" where
  "element_string rt JsonNull = []"
| "element_string rt (JsonBool b) = (if b then ''true'' else ''false'')"
| "element_string rt (JsonNumber n) = numberToString rt n"
| "element_string rt (JsonString s) = s"
| "element_string rt (JsonArray xs) = join_with '','' (map (element_string rt) xs)"
| "element_string rt (JsonObject kvs) = ''[object Object]''"

definition MT700_docs :: "runtime \<Rightarrow> object \<Rightarrow> js_error + string" where
  "MT700_docs rt app =
    (case safeJSON rt (app ''documents'') (JsonArray []) of
       JsonArray xs \<Rightarrow>
         Inr (join_with ('','' @ [CHR 0x0A] @ ''   '') (map (element_string rt) xs))
     | _ \<Rightarrow> Inl TypeError)"

text \<open>
  The lines of the template literal, in order. The clock enters as two texts: \<open>isoNow\<close>,
  what \<open>new Date().toISOString()\<close> returns, and \<open>localeNow\<close>, what
  \<open>new Date().toLocaleString('en-IN')\<close> returns; \<open>docs\<close> is the joined list of documents.
\<close>

definition MT700_lines ::
  "runtime \<Rightarrow> string \<Rightarrow> string \<Rightarrow> object \<Rightarrow> string \<Rightarrow> string list" where
  "MT700_lines rt isoNow localeNow app docs =
    (let dateStr = remove_dashes (take 10 isoNow);
         amt = toFixed2 rt (parseFloat rt (or_else (app ''lc_amount'') (JNumber (Num 0))));
         currency = toUpperCase (str_or (app ''lc_currency'') ''USD'');
         expiry = take 6 (remove_dashes (str_or (app ''lc_expiry_date'') []));
         expiryFull = remove_dashes (str_or (app ''lc_expiry_date'') []);
         latestShip = remove_dashes (str_or (app ''latest_ship_date'') []);
         tolerance = or_else (app ''tolerance_pct'') (JNumber (Num 5))
     in
       [''***** SWIFT MT700 '' @ em_dash @ '' ISSUE OF A DOCUMENTARY CREDIT *****'',
        ''Generated by: Barclays LC System | '' @ localeNow,
        ''======================================================================'',
        [],
        '':27: SEQUENCE OF TOTAL'',
        ''  1/1'',
        [],
        '':40A: FORM OF DOCUMENTARY CREDIT'',
        ''  '' @ toUpperCase (str_or (app ''lc_type'') ''SIGHT'') @ '' IRREVOCABLE'',
        [],
        '':20: DOCUMENTARY CREDIT NUMBER'',
        ''  '' @ String_of rt (or_else (app ''ref'') (JString ''TBD'')),
        [],
        '':31C: DATE OF ISSUE'',
        ''  '' @ dateStr,
        [],
        '':40E: APPLICABLE RULES'',
        ''  UCP LATEST VERSION'',
        [],
        '':31D: DATE AND PLACE OF EXPIRY'',
        ''  '' @ expiryFull @ '' '' @ toUpperCase (str_or (app ''lc_expiry_place'') []),
        [],
        '':50: APPLICANT'',
        ''  '' @ toUpperCase (str_or (app ''applicant_name'') []),
        ''  '' @ toUpperCase (str_or (app ''applicant_address'') []),
        ''  '' @ toUpperCase (str_or (app ''applicant_city'') []) @ '', '' @ toUpperCase (str_or (app ''applicant_country'') []),
        [],
        '':59: BENEFICIARY'',
        ''  '' @ toUpperCase (str_or (app ''beneficiary_name'') []),
        ''  '' @ toUpperCase (str_or (app ''beneficiary_address'') []),
        ''  '' @ toUpperCase (str_or (app ''beneficiary_city'') []) @ '', '' @ toUpperCase (str_or (app ''beneficiary_country'') []),
        [],
        '':32B: CURRENCY CODE, AMOUNT'',
        ''  '' @ currency @ amt,
        [],
        '':39A: PERCENTAGE CREDIT AMOUNT TOLERANCE'',
        ''  '' @ String_of rt tolerance @ ''/'' @ String_of rt tolerance,
        [],
        '':41A: AVAILABLE WITH... BY...'',
        ''  '' @ toUpperCase (str_or (app ''advising_bank'') ''BARCLAYS BANK PLC''),
        ''  BY '' @ (if app ''lc_type'' = JString ''Sight'' then ''PAYMENT''
          else if app ''lc_type'' = JString ''Usance'' then ''ACCEPTANCE'' else ''NEGOTIATION''),
        [],
        '':42C: DRAFTS AT...'',
        ''  '' @ (if app ''payment_terms'' = JString ''At Sight'' then ''SIGHT''
          else toUpperCase (str_or (app ''payment_terms'') ''SIGHT'')),
        [],
        '':42A: DRAWEE'',
        ''  '' @ toUpperCase (str_or (app ''issuing_bank'') ''BARCLAYS BANK PLC, INDIA''),
        [],
        '':43P: PARTIAL SHIPMENTS'',
        ''  '' @ (if app ''partial_shipments'' = JString ''Yes'' then ''ALLOWED'' else ''NOT ALLOWED''),
        [],
        '':43T: TRANSHIPMENT'',
        ''  '' @ (if app ''transhipment'' = JString ''Yes'' then ''ALLOWED'' else ''NOT ALLOWED''),
        [],
        '':44E: PORT OF LOADING/AIRPORT OF DEPARTURE'',
        ''  '' @ toUpperCase (str_or (app ''port_loading'') []),
        [],
        '':44F: PORT OF DISCHARGE/AIRPORT OF DESTINATION'',
        ''  '' @ toUpperCase (str_or (app ''port_discharge'') []),
        [],
        '':44C: LATEST DATE OF SHIPMENT'',
        ''  '' @ latestShip,
        [],
        '':44B: PLACE OF FINAL DESTINATION'',
        ''  '' @ toUpperCase (str_or (app ''port_discharge'') []),
        [],
        '':45A: DESCRIPTION OF GOODS AND/OR SERVICES'',
        ''  '' @ toUpperCase (str_or (app ''goods_desc'') []),
        ''  QUANTITY: '' @ toUpperCase (str_or (app ''quantity'') []),
        ''  UNIT PRICE: '' @ toUpperCase (str_or (app ''unit_price'') []),
        ''  HS CODE: '' @ String_of rt (or_else (app ''hs_code'') (JString ''N/A'')),
        ''  COUNTRY OF ORIGIN: '' @ toUpperCase (str_or (app ''country_origin'') []),
        ''  INCOTERMS: '' @ toUpperCase (str_or (app ''incoterms'') []),
        [],
        '':46A: DOCUMENTS REQUIRED'',
        ''   '' @ toUpperCase docs,
        ''   '' @ (if truthy (app ''additional_docs'')
          then toUpperCase (str_or (app ''additional_docs'') []) else []),
        [],
        '':47A: ADDITIONAL CONDITIONS'',
        ''  '' @ toUpperCase (str_or (app ''special_instructions'') ''NIL''),
        [],
        '':71B: CHARGES'',
        ''  ALL BANKING CHARGES OUTSIDE INDIA ARE FOR ACCOUNT OF BENEFICIARY'',
        [],
        '':48: PERIOD FOR PRESENTATION'',
        ''  DOCUMENTS TO BE PRESENTED WITHIN 21 DAYS AFTER DATE OF SHIPMENT'',
        ''  BUT WITHIN THE VALIDITY OF THE CREDIT.'',
        [],
        '':49: CONFIRMATION INSTRUCTIONS'',
        ''  '' @ (if truthy (app ''confirming_bank'') then ''CONFIRM'' else ''WITHOUT''),
        [],
        '':53A: REIMBURSING BANK'',
        ''  '' @ toUpperCase (str_or (app ''confirming_bank'')
                         (str_or (app ''advising_bank'') ''BARCLAYS BANK PLC'')),
        [],
        '':78: INSTRUCTIONS TO THE PAYING/ACCEPTING/NEGOTIATING BANK'',
        ''  ALL DOCUMENTS MUST BE FORWARDED TO US IN ONE LOT BY COURIER.'',
        ''  UPON RECEIPT OF DOCUMENTS STRICTLY COMPLYING WITH THE TERMS AND'',
        ''  CONDITIONS OF THIS CREDIT, WE SHALL REIMBURSE AS PER YOUR INSTRUCTIONS.'',
        [],
        '':72: SENDER TO RECEIVER INFORMATION'',
        ''  ISSUED SUBJECT TO UCP 600.'',
        ''  FOR BARCLAYS BANK PLC, '' @ toUpperCase (str_or (app ''issuing_bank'') ''INDIA''),
        [],
        ''======================================================================'',
        ''***** END OF MT700 MESSAGE *****''])"

definition generateMT700 ::
  "runtime \<Rightarrow> string \<Rightarrow> string \<Rightarrow> object \<Rightarrow> js_error + string" where
  "generateMT700 rt isoNow localeNow app =
    (if list_all (\<lambda>k. string_or_falsy (app k)) mt700_string_fields
     then (case MT700_docs rt app of
             Inl e \<Rightarrow> Inl e
           | Inr docs \<Rightarrow> Inr (join_with [CHR 0x0A] (MT700_lines rt isoNow localeNow app docs)))
     else Inl TypeError)"

subsection \<open>Reading the tags of a message text\<close>

text \<open>
  The tags of a text are read line by line: a line carries a tag when it starts with a
  colon, two digits, at most one capital letter and a colon.
\<close>

fun split_lines :: "string \<Rightarrow> string list" where
  "split_lines [] = [[]]"
| "split_lines (c # cs) =
     (if c = CHR 0x0A then [] # split_lines cs
      else (case split_lines cs of l # ls \<Rightarrow> (c # l) # ls | [] \<Rightarrow> [[c]]))"

definition is_capital :: "char \<Rightarrow> bool" where
  "is_capital c = (65 \<le> (of_char c :: nat) \<and> (of_char c :: nat) \<le> 90)"

fun tag_of :: "string \<Rightarrow> string option" where
  "tag_of (c0 # d1 # d2 # x # rest) =
     (if c0 = CHR '':'' \<and> is_digit d1 \<and> is_digit d2 then
        (if x = CHR '':'' then Some [c0, d1, d2, x]
         else if is_capital x \<and> rest \<noteq> [] \<and> hd rest = CHR '':'' then Some [c0, d1, d2, x, CHR '':'']
         else None)
      else None)"
| "tag_of _ = None"

definition tags_of :: "string \<Rightarrow> string list" where
  "tags_of text = List.map_filter tag_of (split_lines text)"

definition MT700_TAGS :: "string list" where
  "MT700_TAGS =
    ['':27:'', '':40A:'', '':20:'', '':31C:'', '':40E:'', '':31D:'', '':50:'', '':59:'',
     '':32B:'', '':39A:'', '':41A:'', '':42C:'', '':42A:'', '':43P:'', '':43T:'', '':44E:'',
     '':44F:'', '':44C:'', '':44B:'', '':45A:'', '':46A:'', '':47A:'', '':71B:'', '':48:'',
     '':49:'', '':53A:'', '':78:'', '':72:'']"

text \<open>A text in which no line break is directly followed by a colon.\<close>

fun no_tag_break :: "string \<Rightarrow> bool" where
  "no_tag_break (c # d # s) = (\<not> (c = CHR 0x0A \<and> d = CHR '':'') \<and> no_tag_break (d # s))"
| "no_tag_break _ = True"

text \<open>
  The texts that the template inserts between its fixed parts, in the order of the
  template; the currency and the amount, which the template prints side by side, are one
  text.
\<close>

definition MT700_inserts ::
  "runtime \<Rightarrow> string \<Rightarrow> string \<Rightarrow> object \<Rightarrow> string \<Rightarrow> string list" where
  "MT700_inserts rt isoNow localeNow app docs =
    [localeNow,
     toUpperCase (str_or (app ''lc_type'') ''SIGHT''),
     String_of rt (or_else (app ''ref'') (JString ''TBD'')),
     remove_dashes (take 10 isoNow),
     remove_dashes (str_or (app ''lc_expiry_date'') []),
     toUpperCase (str_or (app ''lc_expiry_place'') []),
     toUpperCase (str_or (app ''applicant_name'') []),
     toUpperCase (str_or (app ''applicant_address'') []),
     toUpperCase (str_or (app ''applicant_city'') []),
     toUpperCase (str_or (app ''applicant_country'') []),
     toUpperCase (str_or (app ''beneficiary_name'') []),
     toUpperCase (str_or (app ''beneficiary_address'') []),
     toUpperCase (str_or (app ''beneficiary_city'') []),
     toUpperCase (str_or (app ''beneficiary_country'') []),
     toUpperCase (str_or (app ''lc_currency'') ''USD'')
       @ toFixed2 rt (parseFloat rt (or_else (app ''lc_amount'') (JNumber (Num 0)))),
     String_of rt (or_else (app ''tolerance_pct'') (JNumber (Num 5))),
     toUpperCase (str_or (app ''advising_bank'') ''BARCLAYS BANK PLC''),
     (if app ''payment_terms'' = JString ''At Sight'' then ''SIGHT''
      else toUpperCase (str_or (app ''payment_terms'') ''SIGHT'')),
     toUpperCase (str_or (app ''issuing_bank'') ''BARCLAYS BANK PLC, INDIA''),
     toUpperCase (str_or (app ''port_loading'') []),
     toUpperCase (str_or (app ''port_discharge'') []),
     remove_dashes (str_or (app ''latest_ship_date'') []),
     toUpperCase (str_or (app ''goods_desc'') []),
     toUpperCase (str_or (app ''quantity'') []),
     toUpperCase (str_or (app ''unit_price'') []),
     String_of rt (or_else (app ''hs_code'') (JString ''N/A'')),
     toUpperCase (str_or (app ''country_origin'') []),
     toUpperCase (str_or (app ''incoterms'') []),
     toUpperCase docs,
     (if truthy (app ''additional_docs'')
      then toUpperCase (str_or (app ''additional_docs'') []) else []),
     toUpperCase (str_or (app ''special_instructions'') ''NIL''),
     toUpperCase (str_or (app ''confirming_bank'')
                    (str_or (app ''advising_bank'') ''BARCLAYS BANK PLC'')),
     toUpperCase (str_or (app ''issuing_bank'') ''INDIA'')]"

text \<open>
  A row of the seed data with a description of goods of two lines, two required documents
  and a stored draft of an earlier serialization, a column that the template does not read.
\<close>

definition plain_row :: object where
  "plain_row =
    object_of [(''ref'', JString ''BRC-LC-2024-00001''),
      (''goods_desc'', JString (''Steel coils'' @ [CHR 0x0A] @ ''Grade A: hot rolled'')),
      (''documents'',
       JString (''['' @ [CHR 0x22] @ ''Commercial Invoice'' @ [CHR 0x22] @ '','' @ [CHR 0x22]
                @ ''Packing List'' @ [CHR 0x22] @ '']'')),
      (''mt700_draft'', JString ('':27: SEQUENCE OF TOTAL'' @ [CHR 0x0A] @ '':40A: FORM''))]"

text \<open>A row whose description of goods has a second line that starts like a tag.\<close>

definition injected_row :: object where
  "injected_row =
    object_of [(''ref'', JString ''BRC-LC-2024-00001''),
      (''goods_desc'', JString (''Steel coils'' @ [CHR 0x0A] @ '':20: OTHER-REF''))]"

text \<open>A row whose column \<open>documents\<close> holds the JSON text of a number.\<close>

definition number_documents_row :: object where
  "number_documents_row =
    object_of [(''ref'', JString ''BRC-LC-2024-00001''), (''documents'', JString ''5'')]"

section \<open>Properties of the rule engine\<close>

lemma known_type_has_property:
  "(t, h) \<in> set haircut_table \<Longrightarrow> has_property COLLATERAL_MARGINS t"
  by (auto simp: haircut_table_def has_property_def COLLATERAL_MARGINS_def)

lemma known_type_margin:
  "(t, h) \<in> set haircut_table \<Longrightarrow>
     get_property COLLATERAL_MARGINS t = Own (h / 100)"
  by (auto simp: haircut_table_def get_property_def COLLATERAL_MARGINS_def)


lemma known_type_decision:
  "(t, h) \<in> set haircut_table \<Longrightarrow>
     decision (lcDecision rt t (Num v) (Num a)) =
       (if a \<le> v * (1 - h / 100) then YES
        else if a * (75 / 100) \<le> v * (1 - h / 100) then REVIEW else NO)"
  by (simp add: lcDecision_def known_type_has_property known_type_margin Let_def)

lemma haircut_below_100: "(t, h) \<in> set haircut_table \<Longrightarrow> 0 \<le> h \<and> h < 100"
  by (auto simp: haircut_table_def)

lemma FD_in_table: "(''FD'', 0) \<in> set haircut_table"
  by (simp add: haircut_table_def)

lemma GOVT_BOND_in_table: "(''GOVT_BOND'', 10) \<in> set haircut_table"
  by (simp add: haircut_table_def)



text \<open>
  C8. The decision is monotonic in the collateral value: for a known type and any LC
  amount, raising the value from \<open>v1\<close> to \<open>v2\<close> never lowers the decision in the order
  NO < REVIEW < YES.
\<close>

theorem lcDecision_monotonic:
  assumes "(t, h) \<in> set haircut_table" and "v1 \<le> v2"
  shows "decision_rank (decision (lcDecision rt t (Num v1) a))
       \<le> decision_rank (decision (lcDecision rt t (Num v2) a))"
proof (cases a)
  case NaN
  then show ?thesis
    using assms(1)
    by (simp add: lcDecision_def known_type_has_property known_type_margin Let_def)
next
  case (Num x)
  have "0 \<le> 1 - h / 100"
    using haircut_below_100 [OF assms(1)] by simp
  then have "v1 * (1 - h / 100) \<le> v2 * (1 - h / 100)"
    using assms(2) by (rule mult_right_mono [rotated])
  then show ?thesis
    by (simp add: Num known_type_decision [OF assms(1)])
qed

theorem lcDecision_monotonic_witness:
  "decision_rank (decision (lcDecision sample_runtime ''GOVT_BOND'' (Num 500) (Num 600)))
     \<le> decision_rank (decision (lcDecision sample_runtime ''GOVT_BOND'' (Num 700) (Num 600)))
   \<and> decision (lcDecision sample_runtime ''GOVT_BOND'' (Num 500) (Num 600)) = REVIEW
   \<and> decision (lcDecision sample_runtime ''GOVT_BOND'' (Num 700) (Num 600)) = YES"
proof -
  have le: "(500::rat) \<le> 700" by simp
  show ?thesis
    using lcDecision_monotonic [OF GOVT_BOND_in_table le, of sample_runtime "Num 600"]
    by (simp add: known_type_decision [OF GOVT_BOND_in_table])
qed

text \<open>
  C9. With an LC amount of 0, a known collateral type and a collateral value that is not
  negative, the decision is YES, also when the value is 0.
\<close>

theorem lcDecision_zero_amount:
  assumes "(t, h) \<in> set haircut_table" and "0 \<le> v"
  shows "decision (lcDecision rt t (Num v) (Num 0)) = YES"
proof -
  have "0 \<le> 1 - h / 100"
    using haircut_below_100 [OF assms(1)] by simp
  then have "0 \<le> v * (1 - h / 100)"
    using assms(2) by simp
  then show ?thesis
    by (simp add: known_type_decision [OF assms(1)])
qed

theorem lcDecision_zero_amount_witness:
  "decision (lcDecision sample_runtime ''FD'' (Num 0) (Num 0)) = YES"
proof -
  have z: "(0::rat) \<le> 0" by simp
  show ?thesis
    using lcDecision_zero_amount [OF FD_in_table z, of sample_runtime] by simp
qed

subsection \<open>Unknown collateral types\<close>

lemma upper_char_not_lower: "\<not> (97 \<le> (of_char (upper_char c) :: nat) \<and> (of_char (upper_char c) :: nat) \<le> 122)"
  by (auto simp: upper_char_def Let_def)

lemma toUpperCase_no_lower:
  "c \<in> set (toUpperCase s) \<Longrightarrow> \<not> (97 \<le> (of_char c :: nat) \<and> (of_char c :: nat) \<le> 122)"
  using upper_char_not_lower by (auto simp: toUpperCase_def)

lemma prototype_key_has_lower:
  "k \<in> set Object_prototype_keys \<Longrightarrow>
     \<exists>c \<in> set k. 97 \<le> (of_char c :: nat) \<and> (of_char c :: nat) \<le> 122"
  by (auto simp: Object_prototype_keys_def)

lemma toUpperCase_not_inherited: "toUpperCase s \<notin> set Object_prototype_keys"
  using prototype_key_has_lower toUpperCase_no_lower by blast

lemma unknown_type_result:
  assumes "t \<notin> set (map fst COLLATERAL_MARGINS)" and "t \<notin> set Object_prototype_keys"
  shows "lcDecision rt t v a =
    \<lparr>decision = REVIEW, margin = None, eligibleValue = Num 0,
     reason = ''Unknown collateral type: '' @ t @ ''. Manual review required.''\<rparr>"
  using assms by (simp add: lcDecision_def has_property_def)

lemma table_keys: "fst ` set haircut_table = set (map fst COLLATERAL_MARGINS)"
  by (auto simp: haircut_table_def COLLATERAL_MARGINS_def)

lemma upper_case_not_inherited:
  assumes "toUpperCase t = t"
  shows "t \<notin> set Object_prototype_keys"
proof -
  have "toUpperCase t \<notin> set Object_prototype_keys"
    by (rule toUpperCase_not_inherited)
  then show ?thesis
    unfolding assms .
qed

text \<open>
  The only caller of \<open>lcDecision\<close>, the decision route of the server, passes
  \<open>(row.collateral_primary_type || 'NONE').toUpperCase()\<close> as the type; the function is
  private to the server module. A type it receives is therefore a string in upper case,
  that is, one that \<open>toUpperCase\<close> leaves as it is.

  C7. For every such collateral type that is not in the haircut table, every collateral
  value and every LC amount, the function returns (it has no failing branch) the decision
  REVIEW with margin null, eligible value 0 and a reason that contains the type.
\<close>

theorem lcDecision_unknown_type:
  assumes "t \<notin> fst ` set haircut_table" and "toUpperCase t = t"
  shows "lcDecision rt t v a =
    \<lparr>decision = REVIEW, margin = None, eligibleValue = Num 0,
     reason = ''Unknown collateral type: '' @ t @ ''. Manual review required.''\<rparr>"
proof -
  have "t \<notin> set (map fst COLLATERAL_MARGINS)"
    using assms(1) by (simp add: table_keys del: set_map)
  then show ?thesis
    using upper_case_not_inherited [OF assms(2)] by (rule unknown_type_result)
qed

theorem lcDecision_unknown_type_witness:
  "toUpperCase ''none'' = ''NONE''
   \<and> toUpperCase ''NONE'' = ''NONE''
   \<and> ''NONE'' \<notin> fst ` set haircut_table
   \<and> lcDecision sample_runtime ''NONE'' (Num 0) (Num 425000) =
        \<lparr>decision = REVIEW, margin = None, eligibleValue = Num 0,
         reason = ''Unknown collateral type: NONE. Manual review required.''\<rparr>"
proof -
  have u: "toUpperCase ''none'' = ''NONE''"
    by code_simp
  have i: "toUpperCase ''NONE'' = ''NONE''"
    by code_simp
  have k: "''NONE'' \<notin> fst ` set haircut_table"
    by (simp add: haircut_table_def)
  show ?thesis
    using lcDecision_unknown_type [OF k i, of sample_runtime "Num 0" "Num 425000"] u i k
    by simp
qed

section \<open>Properties of the amount in words\<close>



















section \<open>Properties of the fee calculator\<close>





lemma gst_sum:
  "nadd (nadd v (Num f))
      (nadd (ndiv (nmul v (Num gstRate)) (Num 100)) (Num (f * gstRate / 100)))
   = nadd (nadd v (Num f)) (nmul (nadd v (Num f)) (Num (18 / 100)))"
  by (cases v) (simp_all add: gstRate_def field_simps)

lemma calculateLCFees_result:
  assumes "currency_of data = Inr cur" and "hasConfirmation_of data = Inr conf"
  shows "\<exists>r. calculateLCFees rt now data = Inr r
    \<and> tenorMonths r = tenor_of rt now data
    \<and> appliedRate r = midRate (band_of (tenor_of rt now data))
    \<and> lcAmount r = parseFloat rt (or_else (data ''lcAmount'') (JNumber (Num 0)))
    \<and> subtotal r = round2 (totalFeesBeforeGST_of (lcAmount r) (appliedRate r) conf)
    \<and> grandTotal r =
        round2 (nadd (totalFeesBeforeGST_of (lcAmount r) (appliedRate r) conf)
                 (nmul (totalFeesBeforeGST_of (lcAmount r) (appliedRate r) conf) (Num (18 / 100))))"
  using assms
  by (simp add: calculateLCFees_def Let_def totalFeesBeforeGST_of_def gst_sum)



lemma totalFeesBeforeGST_of_Num:
  "totalFeesBeforeGST_of (Num a) p conf =
     Num (a * p / 100 + a * (125 / 1000) / 100 + (if conf then a * (15 / 100) / 100 else 0)
          + (5000 + 3500))"
  by (simp add: totalFeesBeforeGST_of_def totalVariableFees_of_def totalFixedFees_of_def
      negotiationFeePct_def confirmationPremiumPct_def advisingFee_amount_def
      courierSwiftCharges_amount_def)

lemma round2_Num: "round2 (Num x) = Num (of_int \<lfloor>x * 100 + 1 / 2\<rfloor> / 100)"
  by (simp add: round2_def Math_round_def)

lemma round2_gst_close:
  fixes s :: rat
  defines "sb \<equiv> (of_int \<lfloor>s * 100 + 1 / 2\<rfloor> / 100 :: rat)"
  shows "\<bar>of_int \<lfloor>(s + s * (18 / 100)) * 100 + 1 / 2\<rfloor> / 100
          - of_int \<lfloor>(sb + sb * (18 / 100)) * 100 + 1 / 2\<rfloor> / (100 :: rat)\<bar> \<le> 1 / 100"
proof -
  define C where "C = \<lfloor>s * 100 + 1 / 2\<rfloor>"
  define A where "A = \<lfloor>(s + s * (18 / 100)) * 100 + 1 / 2\<rfloor>"
  define B where "B = \<lfloor>(sb + sb * (18 / 100)) * 100 + 1 / 2\<rfloor>"
  have c: "of_int C \<le> s * 100 + 1 / 2" "s * 100 + 1 / 2 < of_int C + 1"
    unfolding C_def by linarith+
  have a: "of_int A \<le> (s + s * (18 / 100)) * 100 + 1 / 2"
      "(s + s * (18 / 100)) * 100 + 1 / 2 < of_int A + 1"
    unfolding A_def by linarith+
  have b: "of_int B \<le> (sb + sb * (18 / 100)) * 100 + 1 / 2"
      "(sb + sb * (18 / 100)) * 100 + 1 / 2 < of_int B + 1"
    unfolding B_def by linarith+
  have sb: "sb * 100 = of_int C"
    by (simp add: sb_def C_def)
  have e: "(s + s * (18 / 100)) * 100 = 118 * s" "(sb + sb * (18 / 100)) * 100 = 118 * sb"
    by simp_all
  have "(of_int A :: rat) < of_int B + 2" "(of_int B :: rat) < of_int A + 2"
    using a b c sb unfolding e by linarith+
  then have "A < B + 2" "B < A + 2"
    by linarith+
  then have "\<bar>A - B\<bar> \<le> 1" by linarith
  then have "\<bar>(of_int A :: rat) - of_int B\<bar> \<le> 1"
    by linarith
  then show ?thesis
    unfolding A_def [symmetric] B_def [symmetric]
    by (simp add: diff_divide_distrib [symmetric] abs_divide)
qed





text \<open>
  The subtotal that the schedule shows is already rounded. Recomputing the grand total from
  it, as \<open>round2 (subtotal + subtotal \<times> 0.18)\<close>, differs from the grand total of the
  schedule by at most 0.01.
\<close>

lemma grandTotal_from_rounded_subtotal:
  assumes "calculateLCFees rt now data = Inr r" and "lcAmount r = Num a"
  shows "\<exists>g sb t. grandTotal r = Num g \<and> subtotal r = Num sb
     \<and> round2 (nadd (Num sb) (nmul (Num sb) (Num (18 / 100)))) = Num t
     \<and> \<bar>g - t\<bar> \<le> 1 / 100"
proof -
  obtain cur where cur: "currency_of data = Inr cur"
    using assms(1) by (auto simp: calculateLCFees_def Let_def split: sum.splits)
  obtain conf where conf: "hasConfirmation_of data = Inr conf"
    using assms(1) by (auto simp: calculateLCFees_def Let_def split: sum.splits)
  obtain s where s: "totalFeesBeforeGST_of (lcAmount r) (appliedRate r) conf = Num s"
    by (simp add: assms(2) totalFeesBeforeGST_of_Num)
  let ?sb = "of_int \<lfloor>s * 100 + 1 / 2\<rfloor> / 100 :: rat"
  let ?g = "of_int \<lfloor>(s + s * (18 / 100)) * 100 + 1 / 2\<rfloor> / 100 :: rat"
  let ?t = "of_int \<lfloor>(?sb + ?sb * (18 / 100)) * 100 + 1 / 2\<rfloor> / 100 :: rat"
  have "subtotal r = round2 (Num s)"
    and "grandTotal r = round2 (nadd (Num s) (nmul (Num s) (Num (18 / 100))))"
    using calculateLCFees_result [OF cur conf, of rt now] assms(1) s by auto
  then have 1: "grandTotal r = Num ?g" and 2: "subtotal r = Num ?sb"
    by (simp_all only: nadd.simps nmul.simps round2_Num)
  have 3: "round2 (nadd (Num ?sb) (nmul (Num ?sb) (Num (18 / 100)))) = Num ?t"
    by (simp only: nadd.simps nmul.simps round2_Num)
  have 4: "\<bar>?g - ?t\<bar> \<le> 1 / 100"
    by (rule round2_gst_close)
  show ?thesis
    using 1 2 3 4 by blast
qed

section \<open>Properties of the validator\<close>

lemma validate_loop_missing:
  "fst (validate_loop rt data fl (mis, fs)) =
     mis @ map snd (filter (\<lambda>(key, lbl). \<not> field_present rt (data key)) fl)"
  by (induction fl arbitrary: mis fs) (auto simp: Let_def)

lemma validate_loop_status_other:
  "key \<notin> fst ` set fl \<Longrightarrow> snd (validate_loop rt data fl (mis, fs)) key = fs key"
  by (induction fl arbitrary: mis fs) (auto simp: Let_def)

lemma validate_loop_status:
  "distinct (map fst fl) \<Longrightarrow> (key, lbl) \<in> set fl \<Longrightarrow>
     snd (validate_loop rt data fl (mis, fs)) key =
       Some \<lparr>fs_label = lbl, fs_present = field_present rt (data key), fs_value = data key\<rparr>"
proof (induction fl arbitrary: mis fs)
  case Nil
  then show ?case by simp
next
  case (Cons f fl)
  obtain k l where f: "f = (k, l)" by (cases f)
  show ?case
  proof (cases "(key, lbl) = (k, l)")
    case True
    then have "key \<notin> fst ` set fl"
      using Cons.prems(1) f by auto
    then show ?thesis
      using True f by (simp add: Let_def validate_loop_status_other)
  next
    case False
    then have "(key, lbl) \<in> set fl" "distinct (map fst fl)"
      using Cons.prems f by auto
    then show ?thesis
      using Cons.IH f by (simp add: Let_def)
  qed
qed

lemma MANDATORY_FIELDS_distinct:
  "distinct (map fst MANDATORY_FIELDS)" "distinct (map snd MANDATORY_FIELDS)"
  "length MANDATORY_FIELDS = 10"
  by (simp_all add: MANDATORY_FIELDS_def)

lemma currency_warning_typed:
  "string_or_falsy (data ''lcCurrency'') \<Longrightarrow> \<exists>w. currency_warning data = Inr w"
  by (cases "data ''lcCurrency''") (auto simp: currency_warning_def)

lemma validateLC_result:
  assumes "currency_warning data = Inr cw"
  shows "validateLC rt data =
    Inr \<lparr>valid = (fst (validate_loop rt data MANDATORY_FIELDS ([], Map.empty)) = []),
         missing = fst (validate_loop rt data MANDATORY_FIELDS ([], Map.empty)),
         warnings = date_warning rt data @ amount_warning rt data @ cw,
         fieldStatus = snd (validate_loop rt data MANDATORY_FIELDS ([], Map.empty))\<rparr>"
  using assms by (simp add: validateLC_def split: prod.splits)

lemma missing_label_iff:
  assumes "(key, lbl) \<in> set MANDATORY_FIELDS"
  shows "lbl \<in> set (map snd (filter (\<lambda>(key, lbl). \<not> field_present rt (data key)) MANDATORY_FIELDS))
     \<longleftrightarrow> \<not> field_present rt (data key)"
proof
  assume "lbl \<in> set (map snd (filter (\<lambda>(key, lbl). \<not> field_present rt (data key)) MANDATORY_FIELDS))"
  then obtain k where k: "(k, lbl) \<in> set MANDATORY_FIELDS" "\<not> field_present rt (data k)"
    by auto
  have "k = key"
    using k(1) assms MANDATORY_FIELDS_distinct(2)
    by (metis distinct_map inj_on_def snd_conv prod.inject)
  then show "\<not> field_present rt (data key)" using k(2) by simp
next
  assume "\<not> field_present rt (data key)"
  then show "lbl \<in> set (map snd (filter (\<lambda>(key, lbl). \<not> field_present rt (data key)) MANDATORY_FIELDS))"
    using assms by force
qed

text \<open>
  C6. For an application whose currency is a string or empty, the validator returns a
  result in which each of the ten mandatory fields is reported present exactly when its
  value is neither \<open>undefined\<close> nor \<open>null\<close> and its trimmed string form is neither empty
  nor \<open>0\<close>; \<open>valid\<close> holds exactly when the list \<open>missing\<close> is empty; the list holds, in
  the order of the table and without repetition, the labels of exactly the fields that are
  not present; so an application that misses any mandatory field is not valid.
\<close>

theorem validateLC_mandatory:
  assumes "string_or_falsy (data ''lcCurrency'')"
  shows "\<exists>r. validateLC rt data = Inr r
    \<and> (\<forall>(key, lbl) \<in> set MANDATORY_FIELDS.
          fieldStatus r key =
            Some \<lparr>fs_label = lbl,
                  fs_present = (data key \<noteq> JUndefined \<and> data key \<noteq> JNull
                     \<and> trim (String_of rt (data key)) \<noteq> []
                     \<and> trim (String_of rt (data key)) \<noteq> ''0''),
                  fs_value = data key\<rparr>)
    \<and> (valid r \<longleftrightarrow> missing r = [])
    \<and> missing r =
          map snd (filter (\<lambda>(key, lbl). \<not> field_present rt (data key)) MANDATORY_FIELDS)
    \<and> (\<forall>(key, lbl) \<in> set MANDATORY_FIELDS.
          lbl \<in> set (missing r) \<longleftrightarrow>
            \<not> (data key \<noteq> JUndefined \<and> data key \<noteq> JNull
               \<and> trim (String_of rt (data key)) \<noteq> []
               \<and> trim (String_of rt (data key)) \<noteq> ''0''))
    \<and> set (missing r) \<subseteq> snd ` set MANDATORY_FIELDS \<and> distinct (missing r)
    \<and> ((\<exists>(key, lbl) \<in> set MANDATORY_FIELDS.
           \<not> (data key \<noteq> JUndefined \<and> data key \<noteq> JNull
              \<and> trim (String_of rt (data key)) \<noteq> []
              \<and> trim (String_of rt (data key)) \<noteq> ''0''))
         \<longrightarrow> \<not> valid r)
    \<and> length MANDATORY_FIELDS = 10"
proof -
  obtain cw where cw: "currency_warning data = Inr cw"
    using currency_warning_typed [of data] assms by blast
  define r where "r =
    \<lparr>valid = (fst (validate_loop rt data MANDATORY_FIELDS ([], Map.empty)) = []),
     missing = fst (validate_loop rt data MANDATORY_FIELDS ([], Map.empty)),
     warnings = date_warning rt data @ amount_warning rt data @ cw,
     fieldStatus = snd (validate_loop rt data MANDATORY_FIELDS ([], Map.empty))\<rparr>"
  have res: "validateLC rt data = Inr r"
    unfolding r_def using cw by (rule validateLC_result)
  have mis: "missing r =
      map snd (filter (\<lambda>(key, lbl). \<not> field_present rt (data key)) MANDATORY_FIELDS)"
    by (simp add: r_def validate_loop_missing)
  have st: "\<forall>(key, lbl) \<in> set MANDATORY_FIELDS.
      fieldStatus r key =
        Some \<lparr>fs_label = lbl, fs_present = field_present rt (data key), fs_value = data key\<rparr>"
    using validate_loop_status [OF MANDATORY_FIELDS_distinct(1)]
    by (auto simp: r_def)
  have v: "valid r \<longleftrightarrow> missing r = []"
    by (simp add: r_def)
  have iff: "\<forall>(key, lbl) \<in> set MANDATORY_FIELDS.
      lbl \<in> set (missing r) \<longleftrightarrow> \<not> field_present rt (data key)"
    using missing_label_iff [of _ _ rt data] by (auto simp only: mis)
  have sub: "set (missing r) \<subseteq> snd ` set MANDATORY_FIELDS"
    by (auto simp: mis)
  have dist: "distinct (missing r)"
    unfolding mis using MANDATORY_FIELDS_distinct(2) by (rule distinct_map_filter)
  have nv: "(\<exists>(key, lbl) \<in> set MANDATORY_FIELDS. \<not> field_present rt (data key))
      \<longrightarrow> \<not> valid r"
    using iff v by fastforce
  show ?thesis
    using res st v mis iff sub dist nv MANDATORY_FIELDS_distinct(3)
    unfolding field_present_def [symmetric] by blast
qed

theorem validateLC_mandatory_witness:
  "\<exists>r. validateLC sample_runtime validate_example = Inr r \<and> \<not> valid r
     \<and> missing r = [''Beneficiary Name'', ''LC Amount'', ''Payment Terms'', ''Issuing Bank'']
     \<and> fieldStatus r ''paymentTerms'' =
          Some \<lparr>fs_label = ''Payment Terms'', fs_present = False,
                fs_value = JString [CHR 0xC2, CHR 0xA0, CHR 0xE3, CHR 0x80, CHR 0x80]\<rparr>
     \<and> fieldStatus r ''goodsDesc'' =
          Some \<lparr>fs_label = ''Description of Goods'', fs_present = True,
                fs_value = JString ''Industrial CNC Laser Cutting Machines''\<rparr>"
proof -
  have t: "string_or_falsy (validate_example ''lcCurrency'')"
    by (simp add: validate_example_def object_of_def)
  have m: "map snd (filter (\<lambda>(key, lbl). \<not> field_present sample_runtime (validate_example key))
              MANDATORY_FIELDS)
           = [''Beneficiary Name'', ''LC Amount'', ''Payment Terms'', ''Issuing Bank'']"
    by code_simp
  have p: "trim [CHR 0xC2, CHR 0xA0, CHR 0xE3, CHR 0x80, CHR 0x80] = []"
    by code_simp
  have g: "trim ''Industrial CNC Laser Cutting Machines''
           = ''Industrial CNC Laser Cutting Machines''"
    by code_simp
  have vp: "validate_example ''paymentTerms''
            = JString [CHR 0xC2, CHR 0xA0, CHR 0xE3, CHR 0x80, CHR 0x80]"
    by (simp add: validate_example_def object_of_def)
  have vg: "validate_example ''goodsDesc'' = JString ''Industrial CNC Laser Cutting Machines''"
    by (simp add: validate_example_def object_of_def)
  have kp: "(''paymentTerms'', ''Payment Terms'') \<in> set MANDATORY_FIELDS"
    by (simp add: MANDATORY_FIELDS_def)
  have kg: "(''goodsDesc'', ''Description of Goods'') \<in> set MANDATORY_FIELDS"
    by (simp add: MANDATORY_FIELDS_def)
  obtain r where r: "validateLC sample_runtime validate_example = Inr r"
    and st: "\<forall>(key, lbl) \<in> set MANDATORY_FIELDS.
          fieldStatus r key =
            Some \<lparr>fs_label = lbl,
                  fs_present = (validate_example key \<noteq> JUndefined \<and> validate_example key \<noteq> JNull
                     \<and> trim (String_of sample_runtime (validate_example key)) \<noteq> []
                     \<and> trim (String_of sample_runtime (validate_example key)) \<noteq> ''0''),
                  fs_value = validate_example key\<rparr>"
    and v: "valid r \<longleftrightarrow> missing r = []"
    and mis: "missing r =
          map snd (filter (\<lambda>(key, lbl). \<not> field_present sample_runtime (validate_example key))
                     MANDATORY_FIELDS)"
    using validateLC_mandatory [where data = validate_example and rt = sample_runtime, OF t]
    by blast
  have sp: "fieldStatus r ''paymentTerms'' =
          Some \<lparr>fs_label = ''Payment Terms'', fs_present = False,
                fs_value = JString [CHR 0xC2, CHR 0xA0, CHR 0xE3, CHR 0x80, CHR 0x80]\<rparr>"
    using bspec [OF st kp] by (simp add: p vp)
  have sg: "fieldStatus r ''goodsDesc'' =
          Some \<lparr>fs_label = ''Description of Goods'', fs_present = True,
                fs_value = JString ''Industrial CNC Laser Cutting Machines''\<rparr>"
    using bspec [OF st kg] by (simp add: g vg)
  show ?thesis
    using r v sp sg by (auto simp: mis m)
qed

section \<open>Properties of the tolerance clause\<close>

text \<open>
  When \<open>generateClauses\<close> returns, the clause follows the parsed tolerance \<open>tol\<close>: a positive
  \<open>tol\<close> is printed twice, as the percentage more and the percentage less; a \<open>tol\<close> that is
  not positive gives the text that no tolerance is permitted. A tolerance given as a
  non-zero number or as a non-empty string is parsed as it is; a tolerance given as the
  number 0 is replaced by the default 5 before it is parsed.
\<close>

lemma toleranceClause_positive:
  assumes "string_or_falsy (d ''incoterms'')" and "string_or_falsy (d ''specialInstructions'')"
    and "string_or_falsy (d ''paymentTerms'')" and "string_or_falsy (d ''lcType'')"
    and "tol_of rt d = Num t" and "0 < t"
  shows "toleranceClause_of rt d = Inr (tolerance_text (numberToString rt (Num t)))"
  using assms by (simp add: toleranceClause_of_def)

lemma toleranceClause_not_positive:
  assumes "string_or_falsy (d ''incoterms'')" and "string_or_falsy (d ''specialInstructions'')"
    and "string_or_falsy (d ''paymentTerms'')" and "string_or_falsy (d ''lcType'')"
    and "tol_of rt d = Num t" and "t \<le> 0"
  shows "toleranceClause_of rt d = Inr no_tolerance_text"
  using assms by (simp add: toleranceClause_of_def)

lemma tol_of_number: "x \<noteq> 0 \<Longrightarrow> d ''tolerancePct'' = JNumber (Num x) \<Longrightarrow> tol_of rt d = Num x"
  by (simp add: tol_of_def or_else_def)

lemma tol_of_zero_number: "d ''tolerancePct'' = JNumber (Num 0) \<Longrightarrow> tol_of rt d = Num 5"
  by (simp add: tol_of_def or_else_def)

lemma tol_of_string:
  "s \<noteq> [] \<Longrightarrow> d ''tolerancePct'' = JString s \<Longrightarrow> tol_of rt d = parseFloatString rt s"
  by (simp add: tol_of_def or_else_def)

lemma sample_five: "numberToString sample_runtime (Num 5) = ''5''"
  by code_simp

text \<open>
  C2 at a tolerance of 0. For the application of the seed data whose tolerance is the
  number 0, the clause composer does not state that no tolerance is permitted: it states
  a tolerance of 5% more or 5% less.
\<close>

theorem toleranceClause_zero_number:
  "zero_tolerance_example ''tolerancePct'' = JNumber (Num 0)
   \<and> toleranceClause_of sample_runtime zero_tolerance_example =
      Inr (''Tolerance Clause: A tolerance of 5% more or 5% less in both the unit price and ''
           @ ''quantity of goods described herein is acceptable, provided the total drawing ''
           @ ''amount does not exceed the face value of this documentary credit. This ''
           @ ''tolerance applies per UCP 600 Article 30.'')
   \<and> toleranceClause_of sample_runtime zero_tolerance_example \<noteq> Inr no_tolerance_text"
proof -
  have z: "zero_tolerance_example ''tolerancePct'' = JNumber (Num 0)"
    by (simp add: zero_tolerance_example_def object_of_def)
  have ok: "string_or_falsy (zero_tolerance_example ''incoterms'')"
    "string_or_falsy (zero_tolerance_example ''specialInstructions'')"
    "string_or_falsy (zero_tolerance_example ''paymentTerms'')"
    "string_or_falsy (zero_tolerance_example ''lcType'')"
    by (simp_all add: zero_tolerance_example_def object_of_def)
  have c: "toleranceClause_of sample_runtime zero_tolerance_example = Inr (tolerance_text ''5'')"
    using toleranceClause_positive [where d = zero_tolerance_example and rt = sample_runtime
        and t = 5] ok
      tol_of_zero_number [where d = zero_tolerance_example and rt = sample_runtime] z
    by (simp add: sample_five)
  show ?thesis
    by (simp add: z c tolerance_text_def no_tolerance_text_def)
qed

section \<open>Properties of the discrepancy review engine\<close>

lemma on_invoice_amount_append [simp]:
  "on_invoice_amount (xs @ ys) = on_invoice_amount xs @ on_invoice_amount ys"
  by (simp add: on_invoice_amount_def)

lemma amount_rule_fields: "on_invoice_amount (amount_rule rt a p) = amount_rule rt a p"
  by (simp add: on_invoice_amount_def amount_rule_def Let_def)

lemma currency_rule_fields: "on_invoice_amount (currency_rule a p) = []"
  by (simp add: on_invoice_amount_def currency_rule_def Let_def)

lemma shipment_rule_fields: "on_invoice_amount (shipment_rule rt a p) = []"
  by (simp add: on_invoice_amount_def shipment_rule_def Let_def)

lemma loading_rule_fields: "on_invoice_amount (loading_rule a p) = []"
  by (simp add: on_invoice_amount_def loading_rule_def Let_def)

lemma discharge_rule_fields: "on_invoice_amount (discharge_rule a p) = []"
  by (simp add: on_invoice_amount_def discharge_rule_def Let_def)

lemma document_check_fields: "on_invoice_amount (document_check flags doc) = []"
  by (simp add: on_invoice_amount_def document_check_def split: option.splits prod.splits)

lemma documents_rule_fields: "on_invoice_amount (documents_rule ds p) = []"
proof -
  have "on_invoice_amount (concat (map (document_check flags) docs)) = []" for flags docs
    by (induction docs) (simp_all add: document_check_fields, simp add: on_invoice_amount_def)
  then show ?thesis by (simp add: documents_rule_def)
qed

lemma presentation_rule_fields: "on_invoice_amount (presentation_rule rt p) = []"
  by (simp add: on_invoice_amount_def presentation_rule_def Let_def)

lemma requiredDocs_typed:
  assumes "requiredDocs_of rt lcApp \<noteq> Inl TypeError"
  obtains ds where "requiredDocs_of rt lcApp = Inr ds"
proof (cases "requiredDocs_of rt lcApp")
  case (Inl e)
  then show ?thesis using assms by (cases e) simp
next
  case (Inr ds)
  then show ?thesis by (rule that)
qed

lemma runDiscrepancyCheck_amount:
  assumes "typed_rows rt lcApp docPresentation"
  shows "\<exists>r. runDiscrepancyCheck rt lcApp docPresentation = Inr r
     \<and> on_invoice_amount (discrepancies r) = amount_rule rt lcApp docPresentation"
proof -
  obtain ds where ds: "requiredDocs_of rt lcApp = Inr ds"
    using assms by (auto simp: typed_rows_def elim: requiredDocs_typed)
  show ?thesis
    using assms
    by (simp add: runDiscrepancyCheck_def typed_rows_def ds Let_def amount_rule_fields
        currency_rule_fields shipment_rule_fields loading_rule_fields discharge_rule_fields
        documents_rule_fields presentation_rule_fields)
qed

lemma amount_rule_major:
  assumes "num_or (parseFloat rt (p ''invoice_amount'')) 0
            > num_or (parseFloat rt (a ''lc_amount'')) 0
              * (1 + num_or (parseFloat rt (a ''tolerance_pct'')) 5 / 100)"
  shows "\<exists>d. amount_rule rt a p = [d] \<and> severity d = MAJOR \<and> field_name d = ''Invoice Amount''"
  using assms by (simp add: amount_rule_def Let_def)

lemma amount_rule_minor:
  assumes "\<not> num_or (parseFloat rt (p ''invoice_amount'')) 0
            > num_or (parseFloat rt (a ''lc_amount'')) 0
              * (1 + num_or (parseFloat rt (a ''tolerance_pct'')) 5 / 100)"
   and "num_or (parseFloat rt (p ''invoice_amount'')) 0
            < num_or (parseFloat rt (a ''lc_amount'')) 0
              * (1 - num_or (parseFloat rt (a ''tolerance_pct'')) 5 / 100) * (5 / 10)"
  shows "\<exists>d. amount_rule rt a p = [d] \<and> severity d = MINOR \<and> field_name d = ''Invoice Amount''"
  using assms by (simp add: amount_rule_def Let_def)

lemma amount_rule_none:
  assumes "\<not> num_or (parseFloat rt (p ''invoice_amount'')) 0
            > num_or (parseFloat rt (a ''lc_amount'')) 0
              * (1 + num_or (parseFloat rt (a ''tolerance_pct'')) 5 / 100)"
   and "\<not> num_or (parseFloat rt (p ''invoice_amount'')) 0
            < num_or (parseFloat rt (a ''lc_amount'')) 0
              * (1 - num_or (parseFloat rt (a ''tolerance_pct'')) 5 / 100) * (5 / 10)"
  shows "amount_rule rt a p = []"
  using assms by (simp add: amount_rule_def Let_def)

lemma bounds_ordered:
  fixes A t :: rat
  assumes "0 \<le> A" and "0 \<le> t"
  shows "A * (1 - t / 100) * (5 / 10) \<le> A * (1 + t / 100)"
proof -
  have "A * (1 - t / 100) * (5 / 10) \<le> A * (1 - t / 100 + (1 + 3 * t / 100)) * (5 / 10)"
    using assms by (simp add: mult_left_mono)
  also have "\<dots> = A * (1 + t / 100)" by (simp add: field_simps)
  finally show ?thesis .
qed

text \<open>
  What the amount rule does. With the LC amount \<open>lcAmt\<close> and the invoice amount as parsed
  (0 when absent or not a number) and with the tolerance that the code applies, which is
  the stored tolerance unless that is absent, not a number or 0, and 5 then: if neither
  the LC amount nor that tolerance is negative, the check raises exactly one discrepancy
  on \<open>Invoice Amount\<close>, a MAJOR one, when the invoice exceeds
  \<open>lcAmt \<times> (1 + tolerance/100)\<close>; exactly one, a MINOR one, when the invoice is below
  half of \<open>lcAmt \<times> (1 - tolerance/100)\<close>; and none in between.
\<close>

lemma runDiscrepancyCheck_amount_rule:
  assumes "typed_rows rt lcApp docPresentation"
    and "lcAmt = num_or (parseFloat rt (lcApp ''lc_amount'')) 0"
    and "invoiceAmt = num_or (parseFloat rt (docPresentation ''invoice_amount'')) 0"
    and "tolerance = num_or (parseFloat rt (lcApp ''tolerance_pct'')) 5"
    and "0 \<le> lcAmt" and "0 \<le> tolerance"
  shows "\<exists>r. runDiscrepancyCheck rt lcApp docPresentation = Inr r
     \<and> (invoiceAmt > lcAmt * (1 + tolerance / 100) \<longrightarrow>
          (\<exists>d. on_invoice_amount (discrepancies r) = [d] \<and> severity d = MAJOR))
     \<and> (invoiceAmt < lcAmt * (1 - tolerance / 100) * (5 / 10) \<longrightarrow>
          (\<exists>d. on_invoice_amount (discrepancies r) = [d] \<and> severity d = MINOR))
     \<and> (lcAmt * (1 - tolerance / 100) * (5 / 10) \<le> invoiceAmt
          \<and> invoiceAmt \<le> lcAmt * (1 + tolerance / 100) \<longrightarrow>
          on_invoice_amount (discrepancies r) = [])"
proof -
  obtain r where r: "runDiscrepancyCheck rt lcApp docPresentation = Inr r"
      "on_invoice_amount (discrepancies r) = amount_rule rt lcApp docPresentation"
    using runDiscrepancyCheck_amount [where lcApp = lcApp and docPresentation = docPresentation
        and rt = rt] assms(1)
    by blast
  have o: "lcAmt * (1 - tolerance / 100) * (5 / 10) \<le> lcAmt * (1 + tolerance / 100)"
    using assms(5,6) by (rule bounds_ordered)
  have 1: "invoiceAmt > lcAmt * (1 + tolerance / 100) \<longrightarrow>
          (\<exists>d. on_invoice_amount (discrepancies r) = [d] \<and> severity d = MAJOR)"
    using amount_rule_major [where rt = rt and a = lcApp and p = docPresentation]
    unfolding r(2) assms(2,3,4) by blast
  have 2: "invoiceAmt < lcAmt * (1 - tolerance / 100) * (5 / 10) \<longrightarrow>
          (\<exists>d. on_invoice_amount (discrepancies r) = [d] \<and> severity d = MINOR)"
  proof
    assume lt: "invoiceAmt < lcAmt * (1 - tolerance / 100) * (5 / 10)"
    then have "\<not> invoiceAmt > lcAmt * (1 + tolerance / 100)"
      using o by linarith
    then show "\<exists>d. on_invoice_amount (discrepancies r) = [d] \<and> severity d = MINOR"
      using amount_rule_minor [where rt = rt and a = lcApp and p = docPresentation] lt
      unfolding r(2) assms(2,3,4) by blast
  qed
  have 3: "lcAmt * (1 - tolerance / 100) * (5 / 10) \<le> invoiceAmt
          \<and> invoiceAmt \<le> lcAmt * (1 + tolerance / 100) \<longrightarrow>
          on_invoice_amount (discrepancies r) = []"
    using amount_rule_none [where rt = rt and a = lcApp and p = docPresentation]
    unfolding r(2) assms(2,3,4) by (simp add: not_less)
  show ?thesis using r(1) 1 2 3 by blast
qed

text \<open>
  The example of the specification: with an LC amount of 100,000 and a tolerance of 5 an
  invoice of 104,999 raises nothing on the amount, and an invoice of 106,000 raises one
  MAJOR discrepancy.
\<close>

lemma amount_rule_examples:
  "amount_rule rt lc_100000 (invoice_of 104999) = []"
  "\<exists>d. amount_rule rt lc_100000 (invoice_of 106000) = [d] \<and> severity d = MAJOR
       \<and> field_name d = ''Invoice Amount''"
  by (simp_all add: amount_rule_def lc_100000_def invoice_of_def object_of_def num_or_def
      Let_def)

lemma zero_tolerance_rules:
  "amount_rule sample_runtime zero_tolerance_lc over_invoice = []"
  "currency_rule zero_tolerance_lc over_invoice = []"
  "shipment_rule sample_runtime zero_tolerance_lc over_invoice = []"
  "loading_rule zero_tolerance_lc over_invoice = []"
  "discharge_rule zero_tolerance_lc over_invoice = []"
  "requiredDocs_of sample_runtime zero_tolerance_lc
     = Inr [''Commercial Invoice'', ''Packing List'']"
  "documents_rule [''Commercial Invoice'', ''Packing List''] over_invoice = []"
  "presentation_rule sample_runtime over_invoice = []"
  by code_simp+

lemma zero_tolerance_typed: "typed_rows sample_runtime zero_tolerance_lc over_invoice"
  by (simp add: typed_rows_def zero_tolerance_rules)
     (simp add: zero_tolerance_lc_def over_invoice_def object_of_def)

text \<open>
  C3 at a tolerance of 0. The LC of the seed data has the amount 900,000 and the tolerance
  0, so an invoice of 920,000 exceeds \<open>lcAmount \<times> (1 + 0/100)\<close>. The check replaces the
  tolerance 0 by 5, compares with 945,000, and raises no discrepancy at all: the
  presentation is found compliant.
\<close>

theorem runDiscrepancyCheck_zero_tolerance:
  "zero_tolerance_lc ''tolerance_pct'' = JNumber (Num 0)
   \<and> zero_tolerance_lc ''lc_amount'' = JNumber (Num 900000)
   \<and> over_invoice ''invoice_amount'' = JNumber (Num 920000)
   \<and> (920000 :: rat) > 900000 * (1 + 0 / 100)
   \<and> runDiscrepancyCheck sample_runtime zero_tolerance_lc over_invoice =
       Inr \<lparr>discrepancies = [],
            summary = \<lparr>overall = COMPLIANT, fatal = 0, major = 0, minor = 0, total = 0\<rparr>\<rparr>"
proof -
  have f: "zero_tolerance_lc ''tolerance_pct'' = JNumber (Num 0)"
    "zero_tolerance_lc ''lc_amount'' = JNumber (Num 900000)"
    "over_invoice ''invoice_amount'' = JNumber (Num 920000)"
    by (simp_all add: zero_tolerance_lc_def over_invoice_def object_of_def)
  have r: "runDiscrepancyCheck sample_runtime zero_tolerance_lc over_invoice =
       Inr \<lparr>discrepancies = [],
            summary = \<lparr>overall = COMPLIANT, fatal = 0, major = 0, minor = 0, total = 0\<rparr>\<rparr>"
    using zero_tolerance_typed
    by (simp add: runDiscrepancyCheck_def typed_rows_def zero_tolerance_rules Let_def)
  show ?thesis using f r by simp
qed

section \<open>Properties of the MT700 draft generator\<close>

lemma split_lines_nonempty: "split_lines s \<noteq> []"
  by (induction s) (auto split: list.splits)

lemma split_lines_break: "split_lines (a @ CHR 0x0A # b) = split_lines a @ split_lines b"
proof (induction a)
  case Nil
  show ?case by simp
next
  case (Cons c a)
  obtain l ls where l: "split_lines a = l # ls"
    using split_lines_nonempty [of a] by (cases "split_lines a") auto
  show ?case using Cons l by simp
qed

lemma split_lines_join:
  "ls \<noteq> [] \<Longrightarrow> split_lines (join_with [CHR 0x0A] ls) = concat (map split_lines ls)"
proof (induction "[CHR 0x0A]" ls rule: join_with.induct)
  case 1
  then show ?case by simp
next
  case (2 x)
  then show ?case by simp
next
  case (3 x y ys)
  then show ?case by (simp add: split_lines_break)
qed

lemma tags_of_join:
  "ls \<noteq> [] \<Longrightarrow> tags_of (join_with [CHR 0x0A] ls) = concat (map tags_of ls)"
  unfolding tags_of_def
  by (simp add: split_lines_join map_filter_def map_concat filter_concat comp_def)

lemma tag_of_not_colon: "c \<noteq> CHR '':'' \<Longrightarrow> tag_of (c # s) = None"
  by (cases "c # s" rule: tag_of.cases) auto

lemma tags_of_break: "tags_of (a @ CHR 0x0A # b) = tags_of a @ tags_of b"
  by (simp add: tags_of_def split_lines_break map_filter_def)


lemma no_tag_break_Cons:
  "no_tag_break (c # s) = (\<not> (c = CHR 0x0A \<and> prefix '':'' s) \<and> no_tag_break s)"
  by (cases s) auto

lemma no_tag_break_append:
  "no_tag_break (xs @ ys) =
     (no_tag_break xs \<and> no_tag_break ys
      \<and> \<not> (xs \<noteq> [] \<and> last xs = CHR 0x0A \<and> prefix '':'' ys))"
proof (induction xs)
  case Nil
  show ?case by simp
next
  case (Cons c cs)
  show ?case
  proof (cases cs)
    case Nil
    then show ?thesis by (auto simp: no_tag_break_Cons)
  next
    case (Cons d ds)
    then show ?thesis
      using Cons.IH by (auto simp: no_tag_break_Cons)
  qed
qed

lemma tag_of_colon: "tag_of l = Some t \<Longrightarrow> prefix '':'' l"
  by (cases l rule: tag_of.cases) (auto split: if_splits)

lemma split_lines_first: "prefix '':'' (hd (split_lines s)) \<Longrightarrow> prefix '':'' s"
  by (cases s) (auto split: if_splits list.splits)

lemma split_lines_later:
  "no_tag_break s \<Longrightarrow> l \<in> set (tl (split_lines s)) \<Longrightarrow> \<not> prefix '':'' l"
proof (induction s arbitrary: l)
  case Nil
  then show ?case by simp
next
  case (Cons c s)
  obtain l0 ls where l0: "split_lines s = l0 # ls"
    using split_lines_nonempty [of s] by (cases "split_lines s") auto
  have n: "no_tag_break s"
    using Cons.prems(1) by (simp add: no_tag_break_Cons)
  show ?case
  proof (cases "c = CHR 0x0A")
    case True
    then have m: "l = l0 \<or> l \<in> set ls"
      using Cons.prems(2) l0 by auto
    have f: "\<not> prefix '':'' l0"
      using Cons.prems(1) True split_lines_first [of s] l0
      by (auto simp: no_tag_break_Cons)
    show ?thesis
      using m f Cons.IH [OF n, of l] l0 by auto
  next
    case False
    then have "l \<in> set ls"
      using Cons.prems(2) l0 by simp
    then show ?thesis
      using Cons.IH [OF n, of l] l0 by simp
  qed
qed

text \<open>
  A text that does not begin with a colon and in which no line break is followed by one
  has no tag line.
\<close>

lemma tags_of_no_tag:
  assumes "no_tag_break s" and "\<not> prefix '':'' s"
  shows "tags_of s = []"
proof -
  obtain l0 ls where l0: "split_lines s = l0 # ls"
    using split_lines_nonempty [of s] by (cases "split_lines s") auto
  have f: "\<not> prefix '':'' l0"
    using assms(2) split_lines_first [of s] l0 by auto
  have r: "\<not> prefix '':'' l" if "l \<in> set ls" for l
    using split_lines_later [OF assms(1), of l] that l0 by simp
  have "tag_of l = None" if "l \<in> set (split_lines s)" for l
  proof (cases "tag_of l")
    case None
    then show ?thesis .
  next
    case (Some t)
    then have "prefix '':'' l" by (rule tag_of_colon)
    then show ?thesis using that f r l0 by auto
  qed
  then show ?thesis
    by (auto simp: tags_of_def map_filter_def filter_empty_conv)
qed

lemma tags_of_indented: "no_tag_break s \<Longrightarrow> tags_of (CHR '' '' # s) = []"
  by (rule tags_of_no_tag) (simp_all add: no_tag_break_Cons)

lemma tags_of_line: "CHR 0x0A \<notin> set l \<Longrightarrow> tags_of l = (case tag_of l of None \<Rightarrow> [] | Some t \<Rightarrow> [t])"
proof -
  assume "CHR 0x0A \<notin> set l"
  then have "split_lines l = [l]"
    by (induction l) auto
  then show ?thesis
    by (simp add: tags_of_def map_filter_def split: option.splits)
qed

text \<open>
  The tags of the message, when in every inserted text other than the description of goods
  no line break is followed by a colon: the fixed sequence, with the tags of the lines of
  the description of goods inserted after \<open>:45A:\<close>.
\<close>

lemma tags_of_MT700_lines:
  assumes "list_all no_tag_break
             (take 22 (MT700_inserts rt isoNow localeNow app docs)
              @ drop 23 (MT700_inserts rt isoNow localeNow app docs))"
  shows "concat (map tags_of (MT700_lines rt isoNow localeNow app docs)) =
           take 20 MT700_TAGS
           @ tags_of (''  '' @ toUpperCase (str_or (app ''goods_desc'') []))
           @ drop 20 MT700_TAGS"
  using assms
  unfolding MT700_lines_def MT700_inserts_def Let_def MT700_TAGS_def
  by (simp add: tags_of_line tag_of_not_colon tags_of_no_tag no_tag_break_Cons
      no_tag_break_append is_digit_def is_capital_def em_dash_def)

lemma MT700_lines_nonempty: "MT700_lines rt isoNow localeNow app docs \<noteq> []"
  by (simp add: MT700_lines_def Let_def)

lemma generateMT700_typed:
  "list_all (\<lambda>k. string_or_falsy (app k)) mt700_string_fields \<Longrightarrow>
   MT700_docs rt app = Inr docs \<Longrightarrow>
     generateMT700 rt isoNow localeNow app =
       Inr (join_with [CHR 0x0A] (MT700_lines rt isoNow localeNow app docs))"
  by (simp add: generateMT700_def)

lemma tags_of_MT700_text:
  assumes "list_all no_tag_break (MT700_inserts rt isoNow localeNow app docs)"
  shows "tags_of (join_with [CHR 0x0A] (MT700_lines rt isoNow localeNow app docs)) = MT700_TAGS"
proof -
  have a: "list_all no_tag_break
             (take 22 (MT700_inserts rt isoNow localeNow app docs)
              @ drop 23 (MT700_inserts rt isoNow localeNow app docs))"
    using assms by (simp add: MT700_inserts_def)
  have g: "no_tag_break (toUpperCase (str_or (app ''goods_desc'') []))"
    using assms by (simp add: MT700_inserts_def)
  have "tags_of (''  '' @ toUpperCase (str_or (app ''goods_desc'') [])) = []"
    using g by (simp add: tags_of_indented no_tag_break_Cons)
  then show ?thesis
    using tags_of_MT700_lines [OF a]
    by (simp only: tags_of_join [OF MT700_lines_nonempty] append_Nil append_take_drop_id)
qed

text \<open>
  C4, as amended. For a row whose text columns are strings or empty and whose column
  \<open>documents\<close> gives an array, if in no text that the template inserts a line break is
  directly followed by a colon, then the MT700 text has exactly the 28 tags \<open>:27:\<close>,
  \<open>:40A:\<close>, \<open>:20:\<close>, ..., \<open>:78:\<close>, \<open>:72:\<close> in this order, whatever the moment of
  generation: generating twice from the same row gives the same tag sequence and the same
  tag count.
\<close>

theorem generateMT700_tags:
  assumes "list_all (\<lambda>k. string_or_falsy (app k)) mt700_string_fields"
    and "MT700_docs rt app = Inr docs"
    and "list_all no_tag_break (MT700_inserts rt isoNow localeNow app docs)"
    and "list_all no_tag_break (MT700_inserts rt isoNow' localeNow' app docs)"
  shows "\<exists>text text'. generateMT700 rt isoNow localeNow app = Inr text
     \<and> generateMT700 rt isoNow' localeNow' app = Inr text'
     \<and> tags_of text = MT700_TAGS \<and> length (tags_of text) = 28
     \<and> tags_of text' = tags_of text \<and> length (tags_of text') = length (tags_of text)"
proof -
  have l: "length MT700_TAGS = 28" by (simp add: MT700_TAGS_def)
  show ?thesis
    using generateMT700_typed [OF assms(1,2), of isoNow localeNow]
      generateMT700_typed [OF assms(1,2), of isoNow' localeNow']
      tags_of_MT700_text [OF assms(3)] tags_of_MT700_text [OF assms(4)] l
    by simp
qed

lemma sample_texts:
  "numberToString sample_runtime (Num 5) = ''5''" "toFixed2 sample_runtime (Num 0) = ''0.00''"
  by code_simp+

lemma plain_row_inputs:
  "list_all (\<lambda>k. string_or_falsy (plain_row k)) mt700_string_fields"
  "MT700_docs sample_runtime plain_row
     = Inr (''Commercial Invoice,'' @ [CHR 0x0A] @ ''   Packing List'')"
  "list_all no_tag_break
     (MT700_inserts sample_runtime ''2026-01-20T10:00:00.000Z'' ''20/1/2026, 3:30:00 pm''
        plain_row (''Commercial Invoice,'' @ [CHR 0x0A] @ ''   Packing List''))"
  "list_all no_tag_break
     (MT700_inserts sample_runtime ''2026-01-21T08:15:00.000Z'' ''21/1/2026, 1:45:00 pm''
        plain_row (''Commercial Invoice,'' @ [CHR 0x0A] @ ''   Packing List''))"
  by code_simp+

theorem generateMT700_tags_witness:
  "\<exists>text text'.
     generateMT700 sample_runtime ''2026-01-20T10:00:00.000Z'' ''20/1/2026, 3:30:00 pm'' plain_row
       = Inr text
     \<and> generateMT700 sample_runtime ''2026-01-21T08:15:00.000Z'' ''21/1/2026, 1:45:00 pm'' plain_row
       = Inr text'
     \<and> tags_of text = MT700_TAGS \<and> tags_of text' = MT700_TAGS
     \<and> plain_row ''goods_desc'' = JString (''Steel coils'' @ [CHR 0x0A] @ ''Grade A: hot rolled'')"
  using generateMT700_tags [OF plain_row_inputs]
  by (auto simp: plain_row_def object_of_def)

lemma injected_row_inputs:
  "list_all (\<lambda>k. string_or_falsy (injected_row k)) mt700_string_fields"
  "MT700_docs sample_runtime injected_row = Inr []"
  "list_all no_tag_break
     (take 22 (MT700_inserts sample_runtime ''2026-01-20T10:00:00.000Z''
                 ''20/1/2026, 3:30:00 pm'' injected_row [])
      @ drop 23 (MT700_inserts sample_runtime ''2026-01-20T10:00:00.000Z''
                   ''20/1/2026, 3:30:00 pm'' injected_row []))"
  by code_simp+

lemma injected_goods_tags:
  "tags_of (''  '' @ toUpperCase (str_or (injected_row ''goods_desc'') [])) = ['':20:'']"
  by code_simp

text \<open>
  C4 as stated fails for a row with a line break followed by a colon in a text column. The
  description of goods \<open>Steel coils\<close>, line break, \<open>:20: OTHER-REF\<close> is copied into the
  message as it is, so the text has a second tag \<open>:20:\<close> after \<open>:45A:\<close> and 29 tags in all.
\<close>

theorem generateMT700_tags_counterexample:
  "generateMT700 sample_runtime ''2026-01-20T10:00:00.000Z'' ''20/1/2026, 3:30:00 pm'' injected_row
     = Inr (join_with [CHR 0x0A]
         (MT700_lines sample_runtime ''2026-01-20T10:00:00.000Z'' ''20/1/2026, 3:30:00 pm''
            injected_row []))
   \<and> tags_of (join_with [CHR 0x0A]
         (MT700_lines sample_runtime ''2026-01-20T10:00:00.000Z'' ''20/1/2026, 3:30:00 pm''
            injected_row []))
       = take 20 MT700_TAGS @ ['':20:''] @ drop 20 MT700_TAGS
   \<and> tags_of (join_with [CHR 0x0A]
         (MT700_lines sample_runtime ''2026-01-20T10:00:00.000Z'' ''20/1/2026, 3:30:00 pm''
            injected_row []))
       \<noteq> MT700_TAGS"
proof -
  let ?ls = "MT700_lines sample_runtime ''2026-01-20T10:00:00.000Z'' ''20/1/2026, 3:30:00 pm''
            injected_row []"
  have "concat (map tags_of ?ls) =
           take 20 MT700_TAGS
           @ tags_of (''  '' @ toUpperCase (str_or (injected_row ''goods_desc'') []))
           @ drop 20 MT700_TAGS"
    by (rule tags_of_MT700_lines [OF injected_row_inputs(3)])
  then have t: "tags_of (join_with [CHR 0x0A] ?ls)
       = take 20 MT700_TAGS @ ['':20:''] @ drop 20 MT700_TAGS"
    by (simp only: tags_of_join [OF MT700_lines_nonempty] injected_goods_tags)
  have "length (take 20 MT700_TAGS @ ['':20:''] @ drop 20 MT700_TAGS) \<noteq> length MT700_TAGS"
    by (simp add: MT700_TAGS_def)
  then have ne: "take 20 MT700_TAGS @ ['':20:''] @ drop 20 MT700_TAGS \<noteq> MT700_TAGS"
    by metis
  show ?thesis
    using generateMT700_typed [OF injected_row_inputs(1,2), of "''2026-01-20T10:00:00.000Z''"
        "''20/1/2026, 3:30:00 pm''"] t ne
    by simp
qed

text \<open>
  A column \<open>documents\<close> whose JSON text is not that of an array makes the generator throw:
  the parsed value has no method \<open>join\<close>.
\<close>

lemma generateMT700_documents_not_array:
  "generateMT700 sample_runtime ''2026-01-20T10:00:00.000Z'' ''20/1/2026, 3:30:00 pm''
     number_documents_row = Inl TypeError"
proof -
  have "MT700_docs sample_runtime number_documents_row = Inl TypeError"
    by code_simp
  then show ?thesis
    by (simp add: generateMT700_def)
qed

end
